theory Spec2Isabelle
  imports Complex_Main
begin

section \<open>Bus regions: the data model of \<^verbatim>\<open>scripts/build_bus_regions.py\<close>\<close>

text \<open>
  The script reads a bus table and three collections of shapes, assigns a region to every
  substation bus of every configured country and writes two GeoJSON files. Geometry is
  delegated to shapely, geopandas and vresutils; here a geometry is a value of a type
  parameter \<open>'g\<close>, and the three library operations the script calls on it (point
  containment, the Voronoi partition, the area) are fields of a record of functions.
  Coordinates and areas are Python floats that the script only copies and compares; they
  are modelled by the rationals.
\<close>

type_synonym coords = "rat \<times> rat"

text \<open>The two exceptions that the script's own operations raise.\<close>

datatype error = KeyError string | ValueError

text \<open>A row of \<^verbatim>\<open>n.buses\<close>: the index (the bus name) and the five columns the script reads.\<close>

record bus =
  bus_name :: string
  bus_x :: rat
  bus_y :: rat
  bus_country :: string
  bus_substation_lv :: bool
  bus_substation_off :: bool

text \<open>
  A cell of the \<^verbatim>\<open>shape_id\<close> column: Python's \<^verbatim>\<open>None\<close>, the integer sentinel of the
  Voronoi branch, a bus name (offshore rows) or an index value of \<^verbatim>\<open>nuts_shapes\<close>.
\<close>

datatype 'i pyval = PyNone | PyInt int | PyStr string | PyId 'i

text \<open>A dictionary value handed to the data frame constructor: a scalar is broadcast.\<close>

datatype 'a column = Scalar 'a | Array "'a list"

text \<open>A row of an output frame; a missing geometry (\<^verbatim>\<open>None\<close>) is \<open>None\<close>.\<close>

record ('g, 'i) region =
  reg_name :: string
  reg_x :: rat
  reg_y :: rat
  reg_geometry :: "'g option"
  reg_country :: string
  reg_shape_id :: "'i pyval"

text \<open>The geometry library, as far as the script calls it.\<close>

record 'g geolib =
  contains :: "'g \<Rightarrow> coords \<Rightarrow> bool"
  voronoi_partition_pts :: "coords list \<Rightarrow> 'g \<Rightarrow> error + 'g list"
  area :: "'g \<Rightarrow> rat"

text \<open>
  What the script loads before its loop: the configuration, the bus table, the shape
  series (\<^verbatim>\<open>country_shapes\<close> and \<^verbatim>\<open>offshore_shapes\<close> indexed by country name,
  \<^verbatim>\<open>nuts_shapes\<close> an ordered series indexed by id) and the two output paths.
\<close>

record ('g, 'i) inputs =
  countries :: "string list"
  nuts_clustering :: bool
  buses :: "bus list"
  country_shapes :: "string \<rightharpoonup> 'g"
  offshore_shapes :: "string \<rightharpoonup> 'g"
  nuts_shapes :: "('i \<times> 'g) list"
  regions_onshore :: string
  regions_offshore :: string

section \<open>Errors and pandas primitives\<close>

definition bind_err :: "error + 'a \<Rightarrow> ('a \<Rightarrow> error + 'b) \<Rightarrow> error + 'b" where
  "bind_err m f = (case m of Inl e \<Rightarrow> Inl e | Inr v \<Rightarrow> f v)"

text \<open>\<^verbatim>\<open>Series.item()\<close>: the only element, or \<^verbatim>\<open>ValueError\<close> when there is not exactly one.\<close>

fun item :: "'a list \<Rightarrow> error + 'a" where
  "item [v] = Inr v"
| "item vs = Inl ValueError"

text \<open>\<^verbatim>\<open>DataFrame.apply(f, axis=1)\<close>: \<open>f\<close> on every row in order; the first exception propagates.\<close>

fun apply_rows :: "('a \<Rightarrow> error + 'b) \<Rightarrow> 'a list \<Rightarrow> error + 'b list" where
  "apply_rows f [] = Inr []"
| "apply_rows f (r # rs) =
     bind_err (f r) (\<lambda>v. bind_err (apply_rows f rs) (\<lambda>vs. Inr (v # vs)))"

text \<open>\<^verbatim>\<open>pd.concat(objs, ignore_index=True)\<close>: an empty list of frames is a \<^verbatim>\<open>ValueError\<close>.\<close>

definition pd_concat :: "'a list list \<Rightarrow> error + 'a list" where
  "pd_concat objs = (if objs = [] then Inl ValueError else Inr (concat objs))"

text \<open>
  \<^verbatim>\<open>n.buses.loc[mask, ["x", "y"]]\<close>: the rows the mask selects, in table order, each with
  its index (the bus name) and its two coordinates.
\<close>

definition buses_loc :: "(bus \<Rightarrow> bool) \<Rightarrow> bus list \<Rightarrow> (string \<times> coords) list" where
  "buses_loc sel bs = map (\<lambda>b. (bus_name b, (bus_x b, bus_y b))) (filter sel bs)"

definition broadcast :: "nat \<Rightarrow> 'a column \<Rightarrow> error + 'a list" where
  "broadcast n col =
     (case col of
        Scalar v \<Rightarrow> Inr (replicate n v)
      | Array vs \<Rightarrow> if length vs = n then Inr vs else Inl ValueError)"

text \<open>
  \<^verbatim>\<open>gpd.GeoDataFrame({'name': locs.index, 'x': locs['x'], 'y': locs['y'], 'geometry': ...,
  'country': ..., 'shape_id': ...})\<close>: one row per row of \<open>locs\<close>; an array of another
  length is a \<^verbatim>\<open>ValueError\<close>.
\<close>

definition GeoDataFrame ::
  "(string \<times> coords) list \<Rightarrow> 'g option list \<Rightarrow> string \<Rightarrow> 'i pyval column \<Rightarrow>
   error + ('g, 'i) region list" where
  "GeoDataFrame locs geo country shape_id =
     (if length geo \<noteq> length locs then Inl ValueError
      else bind_err (broadcast (length locs) shape_id) (\<lambda>ids.
        Inr (map (\<lambda>(l, g, i).
               \<lparr>reg_name = fst l, reg_x = fst (snd l), reg_y = snd (snd l),
                reg_geometry = g, reg_country = country, reg_shape_id = i\<rparr>)
             (zip locs (zip geo ids)))))"

section \<open>The region assigner of the administrative mode\<close>

text \<open>\<^verbatim>\<open>Point(9.5, 40)\<close>, the probe point of the two \<^verbatim>\<open>except\<close> branches.\<close>

definition probe :: coords where
  "probe = (19 / 2, 40)"

text \<open>\<^verbatim>\<open>nuts_shapes[nuts_shapes.contains(Point(...))]\<close>: the entries whose polygon contains the point.\<close>

definition containing :: "('g \<Rightarrow> coords \<Rightarrow> bool) \<Rightarrow> ('i \<times> 'g) list \<Rightarrow> coords \<Rightarrow> ('i \<times> 'g) list" where
  "containing cont shapes pt = filter (\<lambda>s. cont (snd s) pt) shapes"

text \<open>
  \<^verbatim>\<open>locate_bus\<close>. The \<^verbatim>\<open>except ValueError\<close> branch evaluates the probe lookup and drops
  its value: there is no \<^verbatim>\<open>return\<close>, so the function returns \<^verbatim>\<open>None\<close>, unless the
  probe lookup raises in its turn.
\<close>

definition locate_bus :: "('g \<Rightarrow> coords \<Rightarrow> bool) \<Rightarrow> ('i \<times> 'g) list \<Rightarrow> coords \<Rightarrow> error + 'g option" where
  "locate_bus cont shapes pt =
     (case item (map snd (containing cont shapes pt)) of
        Inr g \<Rightarrow> Inr (Some g)
      | Inl ValueError \<Rightarrow>
          (case item (map snd (containing cont shapes probe)) of
             Inr g \<Rightarrow> Inr None
           | Inl e \<Rightarrow> Inl e)
      | Inl (KeyError k) \<Rightarrow> Inl (KeyError k))"

text \<open>\<^verbatim>\<open>get_id\<close>: the same on the index of the selection.\<close>

definition get_id :: "('g \<Rightarrow> coords \<Rightarrow> bool) \<Rightarrow> ('i \<times> 'g) list \<Rightarrow> coords \<Rightarrow> error + 'i option" where
  "get_id cont shapes pt =
     (case item (map fst (containing cont shapes pt)) of
        Inr i \<Rightarrow> Inr (Some i)
      | Inl ValueError \<Rightarrow>
          (case item (map fst (containing cont shapes probe)) of
             Inr i \<Rightarrow> Inr None
           | Inl e \<Rightarrow> Inl e)
      | Inl (KeyError k) \<Rightarrow> Inl (KeyError k))"

definition get_nuts_shape ::
  "('g \<Rightarrow> coords \<Rightarrow> bool) \<Rightarrow> (string \<times> coords) list \<Rightarrow> ('i \<times> 'g) list \<Rightarrow>
   error + ('g option list \<times> 'i option list)" where
  "get_nuts_shape cont locs shapes =
     bind_err (apply_rows (locate_bus cont shapes) (map snd locs)) (\<lambda>regions.
     bind_err (apply_rows (get_id cont shapes) (map snd locs)) (\<lambda>ids.
     Inr (regions, ids)))"

section \<open>The driver\<close>

definition onshore_locs :: "bus list \<Rightarrow> string \<Rightarrow> (string \<times> coords) list" where
  "onshore_locs bs country =
     buses_loc (\<lambda>b. bus_country b = country \<and> bus_substation_lv b) bs"

definition offshore_locs :: "bus list \<Rightarrow> string \<Rightarrow> (string \<times> coords) list" where
  "offshore_locs bs country =
     buses_loc (\<lambda>b. bus_country b = country \<and> bus_substation_off b) bs"

definition pyval_of_id :: "'i option \<Rightarrow> 'i pyval" where
  "pyval_of_id v = (case v of None \<Rightarrow> PyNone | Some i \<Rightarrow> PyId i)"

subsection \<open>The administrative branch on a store\<close>

text \<open>
  \<^verbatim>\<open>get_nuts_shape\<close> is handed two objects, the frame \<^verbatim>\<open>onshore_locs\<close> and the series
  \<^verbatim>\<open>nuts_shapes\<close>, and the script calls it twice on the same two objects. Here the objects
  live in a store that every step of the function receives and returns, so that what the
  second call sees is what the first call left. The steps follow the source: a boolean
  selection \<^verbatim>\<open>nuts_shapes[...]\<close> and the projection \<^verbatim>\<open>onshore_locs[["x", "y"]]\<close> read an object
  and build a new one, \<^verbatim>\<open>item()\<close> reads, and the function has no assignment to either object.
\<close>

record ('g, 'i) store =
  st_onshore_locs :: "(string \<times> coords) list"
  st_nuts_shapes :: "('i \<times> 'g) list"

definition then_st ::
  "('s \<Rightarrow> (error + 'a) \<times> 's) \<Rightarrow> ('a \<Rightarrow> 's \<Rightarrow> (error + 'b) \<times> 's) \<Rightarrow>
   's \<Rightarrow> (error + 'b) \<times> 's" where
  "then_st m f s = (case m s of (Inl e, s') \<Rightarrow> (Inl e, s') | (Inr v, s') \<Rightarrow> f v s')"

definition return_st :: "'a \<Rightarrow> 's \<Rightarrow> (error + 'a) \<times> 's" where
  "return_st v s = (Inr v, s)"

definition item_st :: "'a list \<Rightarrow> 's \<Rightarrow> (error + 'a) \<times> 's" where
  "item_st vs s = (item vs, s)"

definition containing_st ::
  "('g \<Rightarrow> coords \<Rightarrow> bool) \<Rightarrow> coords \<Rightarrow> ('g, 'i) store \<Rightarrow>
   (error + ('i \<times> 'g) list) \<times> ('g, 'i) store" where
  "containing_st cont pt s = (Inr (containing cont (st_nuts_shapes s) pt), s)"

definition xy_rows_st :: "('g, 'i) store \<Rightarrow> (error + coords list) \<times> ('g, 'i) store" where
  "xy_rows_st s = (Inr (map snd (st_onshore_locs s)), s)"

definition locate_bus_st ::
  "('g \<Rightarrow> coords \<Rightarrow> bool) \<Rightarrow> coords \<Rightarrow> ('g, 'i) store \<Rightarrow>
   (error + 'g option) \<times> ('g, 'i) store" where
  "locate_bus_st cont pt s =
     (case then_st (containing_st cont pt) (\<lambda>sel. item_st (map snd sel)) s of
        (Inr g, s') \<Rightarrow> (Inr (Some g), s')
      | (Inl ValueError, s') \<Rightarrow>
          then_st (then_st (containing_st cont probe) (\<lambda>sel. item_st (map snd sel)))
            (\<lambda>g. return_st None) s'
      | (Inl (KeyError k), s') \<Rightarrow> (Inl (KeyError k), s'))"

definition get_id_st ::
  "('g \<Rightarrow> coords \<Rightarrow> bool) \<Rightarrow> coords \<Rightarrow> ('g, 'i) store \<Rightarrow>
   (error + 'i option) \<times> ('g, 'i) store" where
  "get_id_st cont pt s =
     (case then_st (containing_st cont pt) (\<lambda>sel. item_st (map fst sel)) s of
        (Inr i, s') \<Rightarrow> (Inr (Some i), s')
      | (Inl ValueError, s') \<Rightarrow>
          then_st (then_st (containing_st cont probe) (\<lambda>sel. item_st (map fst sel)))
            (\<lambda>i. return_st None) s'
      | (Inl (KeyError k), s') \<Rightarrow> (Inl (KeyError k), s'))"

fun apply_rows_st ::
  "('a \<Rightarrow> 's \<Rightarrow> (error + 'b) \<times> 's) \<Rightarrow> 'a list \<Rightarrow> 's \<Rightarrow> (error + 'b list) \<times> 's" where
  "apply_rows_st f [] = return_st []"
| "apply_rows_st f (r # rs) =
     then_st (f r) (\<lambda>v. then_st (apply_rows_st f rs) (\<lambda>vs. return_st (v # vs)))"

definition get_nuts_shape_st ::
  "('g \<Rightarrow> coords \<Rightarrow> bool) \<Rightarrow> ('g, 'i) store \<Rightarrow>
   (error + ('g option list \<times> 'i option list)) \<times> ('g, 'i) store" where
  "get_nuts_shape_st cont =
     then_st xy_rows_st (\<lambda>rows.
     then_st (apply_rows_st (locate_bus_st cont) rows) (\<lambda>regions.
     then_st xy_rows_st (\<lambda>rows'.
     then_st (apply_rows_st (get_id_st cont) rows') (\<lambda>ids.
     return_st (regions, ids)))))"

text \<open>
  Lines 114 and 115 as the script has them: \<^verbatim>\<open>get_nuts_shape\<close> is called twice, the first
  result read at \<^verbatim>\<open>[0]\<close>, the second at \<^verbatim>\<open>[1]\<close>. And the reimplementation the
  specification proposes: one call, whose two components are the geometry and the id.
\<close>

definition nuts_branch_st ::
  "'g geolib \<Rightarrow> ('g, 'i) store \<Rightarrow>
   (error + ('g option list \<times> 'i pyval column)) \<times> ('g, 'i) store" where
  "nuts_branch_st lib =
     then_st (get_nuts_shape_st (contains lib)) (\<lambda>first_call.
     then_st (get_nuts_shape_st (contains lib)) (\<lambda>second_call.
     return_st (fst first_call, Array (map pyval_of_id (snd second_call)))))"

definition nuts_branch_single_call_st ::
  "'g geolib \<Rightarrow> ('g, 'i) store \<Rightarrow>
   (error + ('g option list \<times> 'i pyval column)) \<times> ('g, 'i) store" where
  "nuts_branch_single_call_st lib =
     then_st (get_nuts_shape_st (contains lib)) (\<lambda>both.
     return_st (fst both, Array (map pyval_of_id (snd both))))"

text \<open>
  The branch \<^verbatim>\<open>if snakemake.config['clustering']['nuts_clustering']\<close> of the loop: the two
  objects are put in a store, the two calls run on it, and the loop goes on with the value.
\<close>

definition nuts_branch ::
  "'g geolib \<Rightarrow> (string \<times> coords) list \<Rightarrow> ('i \<times> 'g) list \<Rightarrow>
   error + ('g option list \<times> 'i pyval column)" where
  "nuts_branch lib locs shapes =
     fst (nuts_branch_st lib \<lparr>st_onshore_locs = locs, st_nuts_shapes = shapes\<rparr>)"

definition nuts_branch_single_call ::
  "'g geolib \<Rightarrow> (string \<times> coords) list \<Rightarrow> ('i \<times> 'g) list \<Rightarrow>
   error + ('g option list \<times> 'i pyval column)" where
  "nuts_branch_single_call lib locs shapes =
     fst (nuts_branch_single_call_st lib \<lparr>st_onshore_locs = locs, st_nuts_shapes = shapes\<rparr>)"

subsection \<open>The loop\<close>

text \<open>
  \<^verbatim>\<open>1e-2\<close> is the double nearest to one hundredth, \<open>5764607523034235 / 2 ^ 59\<close>. A row
  without geometry has area NaN, and no comparison with NaN holds.
\<close>

definition area_threshold :: rat where
  "area_threshold = 5764607523034235 / 2 ^ 59"

definition area_gt :: "'g geolib \<Rightarrow> ('g, 'i) region \<Rightarrow> bool" where
  "area_gt lib r =
     (case reg_geometry r of None \<Rightarrow> False | Some g \<Rightarrow> area_threshold < area lib g)"

text \<open>
  The body of \<^verbatim>\<open>for country in countries\<close> on the two accumulators
  \<^verbatim>\<open>onshore_regions\<close> and \<^verbatim>\<open>offshore_regions\<close>. The first argument is the
  administrative branch, so that the script's loop and the proposed single-call loop
  share every other line. The two \<^verbatim>\<open>print\<close> calls write to standard output only and
  are left out.
\<close>

definition loop_body_with ::
  "('g geolib \<Rightarrow> (string \<times> coords) list \<Rightarrow> ('i \<times> 'g) list \<Rightarrow>
      error + ('g option list \<times> 'i pyval column)) \<Rightarrow>
   'g geolib \<Rightarrow> ('g, 'i) inputs \<Rightarrow> string \<Rightarrow>
   ('g, 'i) region list list \<times> ('g, 'i) region list list \<Rightarrow>
   error + (('g, 'i) region list list \<times> ('g, 'i) region list list)" where
  "loop_body_with branch lib inp country acc =
     (case country_shapes inp country of
        None \<Rightarrow> Inl (KeyError country)
      | Some onshore_shape \<Rightarrow>
          bind_err
            (if nuts_clustering inp
             then branch lib (onshore_locs (buses inp) country) (nuts_shapes inp)
             else bind_err
                    (voronoi_partition_pts lib
                       (map snd (onshore_locs (buses inp) country)) onshore_shape)
                    (\<lambda>cells. Inr (map Some cells, Scalar (PyInt (- 1)))))
            (\<lambda>geo_and_id.
          bind_err
            (GeoDataFrame (onshore_locs (buses inp) country) (fst geo_and_id) country
               (snd geo_and_id))
            (\<lambda>onshore_regions_c.
          (case offshore_shapes inp country of
             None \<Rightarrow> Inr (fst acc @ [onshore_regions_c], snd acc)
           | Some offshore_shape \<Rightarrow>
               bind_err
                 (voronoi_partition_pts lib
                    (map snd (offshore_locs (buses inp) country)) offshore_shape)
                 (\<lambda>cells.
               bind_err
                 (GeoDataFrame (offshore_locs (buses inp) country) (map Some cells) country
                    (Array (map (\<lambda>l. PyStr (fst l)) (offshore_locs (buses inp) country))))
                 (\<lambda>offshore_regions_c.
               Inr (fst acc @ [onshore_regions_c],
                    snd acc @ [filter (area_gt lib) offshore_regions_c])))))))"

definition loop_body ::
  "'g geolib \<Rightarrow> ('g, 'i) inputs \<Rightarrow> string \<Rightarrow>
   ('g, 'i) region list list \<times> ('g, 'i) region list list \<Rightarrow>
   error + (('g, 'i) region list list \<times> ('g, 'i) region list list)" where
  "loop_body = loop_body_with nuts_branch"

fun country_loop :: "(string \<Rightarrow> 'a \<Rightarrow> error + 'a) \<Rightarrow> string list \<Rightarrow> 'a \<Rightarrow> error + 'a" where
  "country_loop body [] acc = Inr acc"
| "country_loop body (c # cs) acc = bind_err (body c acc) (country_loop body cs)"

section \<open>Writing the outputs\<close>

text \<open>
  The file system is a map from paths to file contents. The two geopandas operations of
  \<^verbatim>\<open>save_to_geojson\<close> are \<^verbatim>\<open>gpd.io.file.infer_schema\<close>, which raises \<^verbatim>\<open>ValueError\<close> on an
  empty frame and otherwise returns a schema that is a parameter here, and
  \<^verbatim>\<open>GeoDataFrame.to_file\<close>, a parameter too: whatever the driver does with a file that is
  already there, the script removes the file first.
\<close>

record schema =
  schema_geometry :: string
  schema_properties :: "(string \<times> string) list"

record ('r, 'f) geo_io =
  inferred :: "'r list \<Rightarrow> schema"
  to_file :: "'r list \<Rightarrow> string \<Rightarrow> schema \<Rightarrow> (string \<rightharpoonup> 'f) \<Rightarrow> (string \<rightharpoonup> 'f)"

definition os_path_exists :: "(string \<rightharpoonup> 'f) \<Rightarrow> string \<Rightarrow> bool" where
  "os_path_exists fs fn = (fs fn \<noteq> None)"

definition os_unlink :: "string \<Rightarrow> (string \<rightharpoonup> 'f) \<Rightarrow> (string \<rightharpoonup> 'f)" where
  "os_unlink fn fs = fs(fn := None)"

definition infer_schema :: "('r, 'f) geo_io \<Rightarrow> 'r list \<Rightarrow> error + schema" where
  "infer_schema io s = (if s = [] then Inl ValueError else Inr (inferred io s))"

text \<open>
  \<^verbatim>\<open>save_to_geojson\<close>: the exception raised, if any, and the file system left. The schema
  is inferred after the old file is removed and before anything is written.
\<close>

definition save_to_geojson ::
  "('r, 'f) geo_io \<Rightarrow> 'r list \<Rightarrow> string \<Rightarrow> (string \<rightharpoonup> 'f) \<Rightarrow>
   error option \<times> (string \<rightharpoonup> 'f)" where
  "save_to_geojson io s fn fs =
     (let fs1 = (if os_path_exists fs fn then os_unlink fn fs else fs) in
      case infer_schema io s of
        Inl e \<Rightarrow> (Some e, fs1)
      | Inr sch \<Rightarrow> (None, to_file io s fn (sch\<lparr>schema_geometry := ''Unknown''\<rparr>) fs1))"

text \<open>
  The script after its loop, generic in the loop body: the exception that ended the run,
  if any, and the file system it leaves.
\<close>

definition main_with ::
  "(string \<Rightarrow> ('g, 'i) region list list \<times> ('g, 'i) region list list \<Rightarrow>
      error + (('g, 'i) region list list \<times> ('g, 'i) region list list)) \<Rightarrow>
   (('g, 'i) region, 'f) geo_io \<Rightarrow>
   ('g, 'i) inputs \<Rightarrow> (string \<rightharpoonup> 'f) \<Rightarrow> error option \<times> (string \<rightharpoonup> 'f)" where
  "main_with body io inp fs =
     (case country_loop body (countries inp) ([], []) of
        Inl e \<Rightarrow> (Some e, fs)
      | Inr acc \<Rightarrow>
          (case pd_concat (fst acc) of
             Inl e \<Rightarrow> (Some e, fs)
           | Inr onshore \<Rightarrow>
               (case save_to_geojson io onshore (regions_onshore inp) fs of
                  (Some e, fs1) \<Rightarrow> (Some e, fs1)
                | (None, fs1) \<Rightarrow>
                    (case pd_concat (snd acc) of
                       Inl e \<Rightarrow> (Some e, fs1)
                     | Inr offshore \<Rightarrow>
                         save_to_geojson io offshore (regions_offshore inp) fs1))))"

definition main ::
  "'g geolib \<Rightarrow> (('g, 'i) region, 'f) geo_io \<Rightarrow>
   ('g, 'i) inputs \<Rightarrow> (string \<rightharpoonup> 'f) \<Rightarrow> error option \<times> (string \<rightharpoonup> 'f)" where
  "main lib io inp fs = main_with (loop_body lib inp) io inp fs"

text \<open>The script with the single call in its loop, to be compared with \<open>main\<close>.\<close>

definition loop_body_single_call ::
  "'g geolib \<Rightarrow> ('g, 'i) inputs \<Rightarrow> string \<Rightarrow>
   ('g, 'i) region list list \<times> ('g, 'i) region list list \<Rightarrow>
   error + (('g, 'i) region list list \<times> ('g, 'i) region list list)" where
  "loop_body_single_call = loop_body_with nuts_branch_single_call"

definition main_single_call ::
  "'g geolib \<Rightarrow> (('g, 'i) region, 'f) geo_io \<Rightarrow>
   ('g, 'i) inputs \<Rightarrow> (string \<rightharpoonup> 'f) \<Rightarrow> error option \<times> (string \<rightharpoonup> 'f)" where
  "main_single_call lib io inp fs =
     main_with (loop_body_single_call lib inp) io inp fs"

section \<open>A small geometry for the examples\<close>

text \<open>
  Axis-parallel rectangles \<open>Box x0 y0 x1 y1\<close>. As in shapely, a polygon contains the points
  of its interior only. The stand-in for the Voronoi routine covers the one input on which
  no tessellation is needed: vresutils returns the outline itself for a single point.
\<close>

datatype box = Box rat rat rat rat

fun box_contains :: "box \<Rightarrow> coords \<Rightarrow> bool" where
  "box_contains (Box x0 y0 x1 y1) (px, py) = (x0 < px \<and> px < x1 \<and> y0 < py \<and> py < y1)"

fun box_area :: "box \<Rightarrow> rat" where
  "box_area (Box x0 y0 x1 y1) = (x1 - x0) * (y1 - y0)"

fun single_cell :: "coords list \<Rightarrow> 'g \<Rightarrow> error + 'g list" where
  "single_cell [p] outline = Inr [outline]"
| "single_cell pts outline = Inl ValueError"

definition box_lib :: "box geolib" where
  "box_lib = \<lparr>contains = box_contains, voronoi_partition_pts = single_cell, area = box_area\<rparr>"

text \<open>Two file writers: one creates the file, one appends to a file that is there.\<close>

definition create_file :: "'a list \<Rightarrow> string \<Rightarrow> (string \<rightharpoonup> 'a list) \<Rightarrow> (string \<rightharpoonup> 'a list)" where
  "create_file s fn fs = fs(fn \<mapsto> s)"

definition append_file :: "'a list \<Rightarrow> string \<Rightarrow> (string \<rightharpoonup> 'a list) \<Rightarrow> (string \<rightharpoonup> 'a list)" where
  "append_file s fn fs = fs(fn \<mapsto> (case fs fn of None \<Rightarrow> s | Some old \<Rightarrow> old @ s))"

definition polygon_schema :: "'r list \<Rightarrow> schema" where
  "polygon_schema s = \<lparr>schema_geometry = ''Polygon'', schema_properties = []\<rparr>"

definition create_io :: "('a, 'a list) geo_io" where
  "create_io = \<lparr>inferred = polygon_schema, to_file = (\<lambda>s fn sch. create_file s fn)\<rparr>"

definition append_io :: "('a, 'a list) geo_io" where
  "append_io = \<lparr>inferred = polygon_schema, to_file = (\<lambda>s fn sch. append_file s fn)\<rparr>"

definition mk_bus :: "string \<Rightarrow> rat \<Rightarrow> rat \<Rightarrow> string \<Rightarrow> bool \<Rightarrow> bool \<Rightarrow> bus" where
  "mk_bus n x y c lv off =
     \<lparr>bus_name = n, bus_x = x, bus_y = y, bus_country = c,
      bus_substation_lv = lv, bus_substation_off = off\<rparr>"

text \<open>
  An example run: two countries, each with one onshore and one offshore bus. The offshore
  shape of \<open>FR\<close> is a sliver of area \<open>1 / 10000\<close>. In the administrative variant the bus
  of \<open>DE\<close> lies in the polygon \<open>DE9\<close> only, the bus of \<open>FR\<close> in no polygon, and the probe
  point in \<open>ITG\<close> only.
\<close>

definition example_buses :: "bus list" where
  "example_buses =
     [mk_bus ''DE1 0'' 10 51 ''DE'' True False,
      mk_bus ''DE1 1'' 7 54 ''DE'' False True,
      mk_bus ''FR1 0'' 2 47 ''FR'' True False,
      mk_bus ''FR1 1'' (- 2) 46 ''FR'' False True]"

definition example_inputs :: "(box, string) inputs" where
  "example_inputs =
     \<lparr>countries = [''DE'', ''FR''],
      nuts_clustering = False,
      buses = example_buses,
      country_shapes = [''DE'' \<mapsto> Box 6 47 15 55, ''FR'' \<mapsto> Box (- 5) 42 8 51],
      offshore_shapes = [''DE'' \<mapsto> Box 6 53 9 56, ''FR'' \<mapsto> Box (- 2) 46 (- 199 / 100) (4601 / 100)],
      nuts_shapes = [(''DE9'', Box 6 47 15 55), (''ITG'', Box 8 38 10 42)],
      regions_onshore = ''on.geojson'',
      regions_offshore = ''off.geojson''\<rparr>"

definition mk_region ::
  "string \<Rightarrow> rat \<Rightarrow> rat \<Rightarrow> 'g option \<Rightarrow> string \<Rightarrow> 'i pyval \<Rightarrow> ('g, 'i) region" where
  "mk_region n x y g c i =
     \<lparr>reg_name = n, reg_x = x, reg_y = y, reg_geometry = g, reg_country = c,
      reg_shape_id = i\<rparr>"

definition example_inputs_nuts :: "(box, string) inputs" where
  "example_inputs_nuts = example_inputs\<lparr>nuts_clustering := True\<rparr>"

text \<open>
  Two variants: the country list names \<open>DE\<close> twice; and, in administrative mode, the list
  names a country \<open>XX\<close> that has a country shape and no bus.
\<close>

definition duplicate_inputs :: "(box, string) inputs" where
  "duplicate_inputs = example_inputs\<lparr>countries := [''DE'', ''DE'']\<rparr>"

definition xx_inputs :: "(box, string) inputs" where
  "xx_inputs = example_inputs_nuts
     \<lparr>countries := [''DE'', ''XX''],
      country_shapes := (country_shapes example_inputs_nuts)(''XX'' \<mapsto> Box 0 0 1 1)\<rparr>"

text \<open>A third variant: the list names a country \<open>XX\<close> that has no country shape.\<close>

definition missing_shape_inputs :: "(box, string) inputs" where
  "missing_shape_inputs = example_inputs\<lparr>countries := [''DE'', ''XX'']\<rparr>"

text \<open>
  A fourth variant: \<open>FR\<close> alone, whose only offshore cell is the sliver. And the store of
  the administrative example, for both countries at once.
\<close>

definition sliver_inputs :: "(box, string) inputs" where
  "sliver_inputs = example_inputs\<lparr>countries := [''FR'']\<rparr>"

definition example_store :: "(box, string) store" where
  "example_store =
     \<lparr>st_onshore_locs = [(''DE1 0'', (10, 51)), (''FR1 0'', (2, 47))],
      st_nuts_shapes = [(''DE9'', Box 6 47 15 55), (''ITG'', Box 8 38 10 42)]\<rparr>"

section \<open>Basic facts\<close>

lemma bind_err_simps [simp]:
  "bind_err (Inl e) f = Inl e"
  "bind_err (Inr v) f = f v"
  by (simp_all add: bind_err_def)

lemma bind_err_Inr_iff: "bind_err m f = Inr y \<longleftrightarrow> (\<exists>v. m = Inr v \<and> f v = Inr y)"
  by (cases m) simp_all

lemma item_Inr_iff: "item xs = Inr v \<longleftrightarrow> xs = [v]"
  by (cases xs rule: item.cases) auto

lemma item_Inl_iff: "item xs = Inl e \<longleftrightarrow> e = ValueError \<and> length xs \<noteq> 1"
  by (cases xs rule: item.cases) auto

lemma item_map: "item (map f xs) = (case item xs of Inl e \<Rightarrow> Inl e | Inr v \<Rightarrow> Inr (f v))"
  by (cases xs rule: item.cases) auto

section \<open>The store is only read\<close>

lemma locate_bus_st_eq:
  "locate_bus_st cont pt s = (locate_bus cont (st_nuts_shapes s) pt, s)"
  by (simp add: locate_bus_st_def locate_bus_def then_st_def containing_st_def item_st_def
      return_st_def split: sum.splits error.splits)

lemma get_id_st_eq:
  "get_id_st cont pt s = (get_id cont (st_nuts_shapes s) pt, s)"
  by (simp add: get_id_st_def get_id_def then_st_def containing_st_def item_st_def
      return_st_def split: sum.splits error.splits)

lemma apply_rows_st_eq:
  assumes "\<And>r. f r s = (g r, s)"
  shows "apply_rows_st f rows s = (apply_rows g rows, s)"
proof (induction rows)
  case Nil
  show ?case by (simp add: return_st_def)
next
  case (Cons r rows)
  show ?case
    by (cases "g r"; cases "apply_rows g rows")
       (simp_all add: then_st_def assms Cons.IH return_st_def)
qed

lemma get_nuts_shape_st_eq:
  "get_nuts_shape_st cont s =
     (get_nuts_shape cont (st_onshore_locs s) (st_nuts_shapes s), s)"
proof -
  have l: "apply_rows_st (locate_bus_st cont) rows s =
      (apply_rows (locate_bus cont (st_nuts_shapes s)) rows, s)" for rows
    by (rule apply_rows_st_eq) (rule locate_bus_st_eq)
  have i: "apply_rows_st (get_id_st cont) rows s =
      (apply_rows (get_id cont (st_nuts_shapes s)) rows, s)" for rows
    by (rule apply_rows_st_eq) (rule get_id_st_eq)
  show ?thesis
    by (cases "apply_rows (locate_bus cont (st_nuts_shapes s)) (map snd (st_onshore_locs s))";
        cases "apply_rows (get_id cont (st_nuts_shapes s)) (map snd (st_onshore_locs s))")
       (simp_all add: get_nuts_shape_st_def get_nuts_shape_def then_st_def xy_rows_st_def
          l i return_st_def)
qed

lemma nuts_branch_st_eq:
  "nuts_branch_st lib s =
     (bind_err (get_nuts_shape (contains lib) (st_onshore_locs s) (st_nuts_shapes s))
        (\<lambda>first_call.
      bind_err (get_nuts_shape (contains lib) (st_onshore_locs s) (st_nuts_shapes s))
        (\<lambda>second_call.
      Inr (fst first_call, Array (map pyval_of_id (snd second_call))))), s)"
  by (cases "get_nuts_shape (contains lib) (st_onshore_locs s) (st_nuts_shapes s)")
     (simp_all add: nuts_branch_st_def then_st_def get_nuts_shape_st_eq return_st_def)

lemma nuts_branch_single_call_st_eq:
  "nuts_branch_single_call_st lib s =
     (bind_err (get_nuts_shape (contains lib) (st_onshore_locs s) (st_nuts_shapes s))
        (\<lambda>both. Inr (fst both, Array (map pyval_of_id (snd both)))), s)"
  by (cases "get_nuts_shape (contains lib) (st_onshore_locs s) (st_nuts_shapes s)")
     (simp_all add: nuts_branch_single_call_st_def then_st_def get_nuts_shape_st_eq
        return_st_def)

lemma nuts_branch_unfold:
  "nuts_branch lib locs shapes =
     bind_err (get_nuts_shape (contains lib) locs shapes) (\<lambda>first_call.
     bind_err (get_nuts_shape (contains lib) locs shapes) (\<lambda>second_call.
     Inr (fst first_call, Array (map pyval_of_id (snd second_call)))))"
  by (simp add: nuts_branch_def nuts_branch_st_eq)

section \<open>The assigner: what a lookup returns\<close>

lemma locate_bus_unique:
  "containing cont shapes pt = [s] \<Longrightarrow> locate_bus cont shapes pt = Inr (Some (snd s))"
  by (simp add: locate_bus_def)

lemma locate_bus_failed:
  "length (containing cont shapes pt) \<noteq> 1 \<Longrightarrow>
   locate_bus cont shapes pt =
     (case item (map snd (containing cont shapes probe)) of
        Inr g \<Rightarrow> Inr None
      | Inl e \<Rightarrow> Inl e)"
  by (cases "containing cont shapes pt" rule: item.cases) (simp_all add: locate_bus_def)

lemma get_id_unique:
  "containing cont shapes pt = [s] \<Longrightarrow> get_id cont shapes pt = Inr (Some (fst s))"
  by (simp add: get_id_def)

lemma get_id_failed:
  "length (containing cont shapes pt) \<noteq> 1 \<Longrightarrow>
   get_id cont shapes pt =
     (case item (map fst (containing cont shapes probe)) of
        Inr i \<Rightarrow> Inr None
      | Inl e \<Rightarrow> Inl e)"
  by (cases "containing cont shapes pt" rule: item.cases) (simp_all add: get_id_def)

text \<open>
  Claim C1 says that a bus point in no administrative polygon is given the polygon and the
  id that contain the probe point. The script computes that polygon and then drops it.
  One polygon \<open>IT1\<close> around the probe point and a bus at the origin, outside of it: both
  lookups return \<^verbatim>\<open>None\<close>, where the claim has the polygon and \<open>IT1\<close>.
\<close>

theorem probe_polygon_is_dropped:
  "locate_bus box_contains [(''IT1'', Box 9 39 10 41)] (0, 0) = Inr None
   \<and> get_id box_contains [(''IT1'', Box 9 39 10 41)] (0, 0) = Inr None
   \<and> containing box_contains [(''IT1'', Box 9 39 10 41)] probe = [(''IT1'', Box 9 39 10 41)]"
  by (simp add: locate_bus_def get_id_def containing_def probe_def)

text \<open>
  Claim C2 says that a bus point in more than one polygon gets the first of them and that
  no error is raised. Two overlapping rectangles, neither around the probe point, and a
  bus in both: the lookup raises \<^verbatim>\<open>ValueError\<close>.
\<close>

theorem first_match_counterexample:
  "containing box_contains [(''A'', Box 0 0 2 2), (''B'', Box 1 1 3 3)] (3 / 2, 3 / 2)
     = [(''A'', Box 0 0 2 2), (''B'', Box 1 1 3 3)]
   \<and> locate_bus box_contains [(''A'', Box 0 0 2 2), (''B'', Box 1 1 3 3)] (3 / 2, 3 / 2)
     = Inl ValueError
   \<and> get_id box_contains [(''A'', Box 0 0 2 2), (''B'', Box 1 1 3 3)] (3 / 2, 3 / 2)
     = Inl ValueError"
  by (simp add: locate_bus_def get_id_def containing_def probe_def)

text \<open>
  Claim C2, amended: \<^verbatim>\<open>item()\<close> asks for exactly one match, so a bus point in more than
  one polygon is a failed lookup like a bus point in none. Both lookups give what they
  give for a point \<open>pt0\<close> in no polygon, whatever the polygons around \<open>pt\<close> are, and they
  raise \<^verbatim>\<open>ValueError\<close> when the probe point is not in exactly one polygon.
\<close>

theorem multiple_matches_fail_like_no_match:
  assumes "1 < length (containing cont shapes pt)"
    and "containing cont shapes pt0 = []"
  shows "locate_bus cont shapes pt = locate_bus cont shapes pt0
       \<and> get_id cont shapes pt = get_id cont shapes pt0
       \<and> (length (containing cont shapes probe) \<noteq> 1 \<longrightarrow>
            locate_bus cont shapes pt = Inl ValueError
            \<and> get_id cont shapes pt = Inl ValueError)"
  using assms
  by (auto simp: locate_bus_failed get_id_failed item_map item_Inl_iff item_Inr_iff
      split: sum.splits)

theorem multiple_matches_fail_like_no_match_witness:
  "1 < length (containing box_contains [(''A'', Box 0 0 2 2), (''B'', Box 1 1 3 3)] (3 / 2, 3 / 2))
   \<and> containing box_contains [(''A'', Box 0 0 2 2), (''B'', Box 1 1 3 3)] (5, 5) = []
   \<and> length (containing box_contains [(''A'', Box 0 0 2 2), (''B'', Box 1 1 3 3)] probe) \<noteq> 1
   \<and> locate_bus box_contains [(''A'', Box 0 0 2 2), (''B'', Box 1 1 3 3)] (3 / 2, 3 / 2)
       = locate_bus box_contains [(''A'', Box 0 0 2 2), (''B'', Box 1 1 3 3)] (5, 5)
   \<and> get_id box_contains [(''A'', Box 0 0 2 2), (''B'', Box 1 1 3 3)] (3 / 2, 3 / 2)
       = get_id box_contains [(''A'', Box 0 0 2 2), (''B'', Box 1 1 3 3)] (5, 5)
   \<and> locate_bus box_contains [(''A'', Box 0 0 2 2), (''B'', Box 1 1 3 3)] (3 / 2, 3 / 2)
       = Inl ValueError"
proof -
  let ?S = "[(''A'', Box 0 0 2 2), (''B'', Box 1 1 3 3)]"
  have two: "1 < length (containing box_contains ?S (3 / 2, 3 / 2))"
    by (simp add: containing_def)
  have none: "containing box_contains ?S (5, 5) = []"
    by (simp add: containing_def)
  have no_probe: "length (containing box_contains ?S probe) \<noteq> 1"
    by (simp add: containing_def probe_def)
  from multiple_matches_fail_like_no_match [OF two none] two none no_probe
  show ?thesis by blast
qed

section \<open>Frames: what the constructor builds\<close>


lemma broadcast_Inr:
  "broadcast n col = Inr ids \<Longrightarrow>
   length ids = n \<and> (case col of Scalar v \<Rightarrow> ids = replicate n v | Array vs \<Rightarrow> ids = vs)"
  by (auto simp: broadcast_def split: column.splits if_splits)

lemma GeoDataFrame_Inr:
  assumes "GeoDataFrame locs geo c sid = Inr rows"
  obtains ids where "length geo = length locs" "broadcast (length locs) sid = Inr ids"
    "length ids = length locs" "length rows = length locs"
    "\<And>k. k < length locs \<Longrightarrow>
       rows ! k = \<lparr>reg_name = fst (locs ! k), reg_x = fst (snd (locs ! k)),
                   reg_y = snd (snd (locs ! k)), reg_geometry = geo ! k,
                   reg_country = c, reg_shape_id = ids ! k\<rparr>"
proof -
  from assms have len: "length geo = length locs"
    by (simp add: GeoDataFrame_def split: if_splits)
  with assms obtain ids where b: "broadcast (length locs) sid = Inr ids"
    and rows: "rows = map (\<lambda>(l, g, i).
               \<lparr>reg_name = fst l, reg_x = fst (snd l), reg_y = snd (snd l),
                reg_geometry = g, reg_country = c, reg_shape_id = i\<rparr>)
             (zip locs (zip geo ids))"
    by (auto simp: GeoDataFrame_def bind_err_Inr_iff)
  from b have li: "length ids = length locs" by (simp add: broadcast_Inr)
  show thesis
    by (rule that [OF len b li]) (simp_all add: rows len li)
qed

lemma GeoDataFrame_keys:
  assumes "GeoDataFrame locs geo c sid = Inr rows"
  shows "map (\<lambda>r. (reg_name r, (reg_x r, reg_y r))) rows = locs"
  using assms by (elim GeoDataFrame_Inr) (simp add: list_eq_iff_nth_eq)

lemma GeoDataFrame_country:
  assumes "GeoDataFrame locs geo c sid = Inr rows" "r \<in> set rows"
  shows "reg_country r = c"
  using assms by (elim GeoDataFrame_Inr) (auto simp: in_set_conv_nth)

lemma GeoDataFrame_scalar_id:
  assumes "GeoDataFrame locs geo c (Scalar v) = Inr rows" "r \<in> set rows"
  shows "reg_shape_id r = v"
  using assms by (elim GeoDataFrame_Inr) (auto simp: in_set_conv_nth dest!: broadcast_Inr)

lemma GeoDataFrame_row:
  assumes "GeoDataFrame locs geo c (Array vs) = Inr rows" "r \<in> set rows"
  obtains k where "k < length locs" "length geo = length locs" "length vs = length locs"
    "reg_name r = fst (locs ! k)" "(reg_x r, reg_y r) = snd (locs ! k)"
    "reg_geometry r = geo ! k" "reg_shape_id r = vs ! k"
  using assms by (elim GeoDataFrame_Inr) (auto simp: in_set_conv_nth dest!: broadcast_Inr)

section \<open>The loop: what one country appends\<close>

lemma loop_body_with_Inr:
  assumes "loop_body_with br lib inp c acc = Inr acc'"
  obtains shape geo sid on_c where
    "country_shapes inp c = Some shape"
    "(if nuts_clustering inp
      then br lib (onshore_locs (buses inp) c) (nuts_shapes inp)
      else bind_err (voronoi_partition_pts lib (map snd (onshore_locs (buses inp) c)) shape)
             (\<lambda>cells. Inr (map Some cells, Scalar (PyInt (- 1))))) = Inr (geo, sid)"
    "GeoDataFrame (onshore_locs (buses inp) c) geo c sid = Inr on_c"
    "fst acc' = fst acc @ [on_c]"
    "offshore_shapes inp c = None \<Longrightarrow> snd acc' = snd acc"
    "\<And>s. offshore_shapes inp c = Some s \<Longrightarrow>
       \<exists>cells off_c.
         voronoi_partition_pts lib (map snd (offshore_locs (buses inp) c)) s = Inr cells
         \<and> GeoDataFrame (offshore_locs (buses inp) c) (map Some cells) c
              (Array (map (\<lambda>l. PyStr (fst l)) (offshore_locs (buses inp) c))) = Inr off_c
         \<and> snd acc' = snd acc @ [filter (area_gt lib) off_c]"
proof -
  from assms obtain shape where sh: "country_shapes inp c = Some shape"
    by (auto simp: loop_body_with_def split: option.splits)
  from assms sh obtain gs on_c where
    br: "(if nuts_clustering inp
      then br lib (onshore_locs (buses inp) c) (nuts_shapes inp)
      else bind_err (voronoi_partition_pts lib (map snd (onshore_locs (buses inp) c)) shape)
             (\<lambda>cells. Inr (map Some cells, Scalar (PyInt (- 1))))) = Inr gs"
    and gdf: "GeoDataFrame (onshore_locs (buses inp) c) (fst gs) c (snd gs) = Inr on_c"
    and rest: "(case offshore_shapes inp c of
             None \<Rightarrow> Inr (fst acc @ [on_c], snd acc)
           | Some offshore_shape \<Rightarrow>
               bind_err
                 (voronoi_partition_pts lib
                    (map snd (offshore_locs (buses inp) c)) offshore_shape)
                 (\<lambda>cells.
               bind_err
                 (GeoDataFrame (offshore_locs (buses inp) c) (map Some cells) c
                    (Array (map (\<lambda>l. PyStr (fst l)) (offshore_locs (buses inp) c))))
                 (\<lambda>offshore_regions_c.
               Inr (fst acc @ [on_c],
                    snd acc @ [filter (area_gt lib) offshore_regions_c])))) = Inr acc'"
    unfolding loop_body_with_def by (fastforce simp: bind_err_Inr_iff)
  show thesis
  proof (rule that [OF sh _ gdf])
    show "(if nuts_clustering inp
      then br lib (onshore_locs (buses inp) c) (nuts_shapes inp)
      else bind_err (voronoi_partition_pts lib (map snd (onshore_locs (buses inp) c)) shape)
             (\<lambda>cells. Inr (map Some cells, Scalar (PyInt (- 1))))) = Inr (fst gs, snd gs)"
      using br by simp
    show "fst acc' = fst acc @ [on_c]"
      using rest by (auto simp: bind_err_Inr_iff split: option.splits)
    show "offshore_shapes inp c = None \<Longrightarrow> snd acc' = snd acc"
      using rest by auto
    show "\<exists>cells off_c.
         voronoi_partition_pts lib (map snd (offshore_locs (buses inp) c)) s = Inr cells
         \<and> GeoDataFrame (offshore_locs (buses inp) c) (map Some cells) c
              (Array (map (\<lambda>l. PyStr (fst l)) (offshore_locs (buses inp) c))) = Inr off_c
         \<and> snd acc' = snd acc @ [filter (area_gt lib) off_c]"
      if "offshore_shapes inp c = Some s" for s
      using rest that by (auto simp: bind_err_Inr_iff)
  qed
qed

lemma country_loop_invariant:
  assumes "country_loop body cs acc = Inr acc'"
    and "I acc"
    and "\<And>c a a'. c \<in> set cs \<Longrightarrow> I a \<Longrightarrow> body c a = Inr a' \<Longrightarrow> I a'"
  shows "I acc'"
  using assms
proof (induction cs arbitrary: acc)
  case Nil
  then show ?case by simp
next
  case (Cons c cs)
  from Cons.prems(1) obtain a where a: "body c acc = Inr a" and l: "country_loop body cs a = Inr acc'"
    by (auto simp: bind_err_Inr_iff)
  have "I a" using Cons.prems(3) [OF _ Cons.prems(2) a] by simp
  with l show ?case using Cons.IH Cons.prems(3) by (metis list.set_intros(2))
qed

lemma country_loop_onshore_keys:
  assumes "country_loop (loop_body_with br lib inp) cs acc = Inr acc'"
  shows "map (\<lambda>r. (reg_name r, (reg_x r, reg_y r))) (concat (fst acc')) =
         map (\<lambda>r. (reg_name r, (reg_x r, reg_y r))) (concat (fst acc))
         @ concat (map (onshore_locs (buses inp)) cs)"
  using assms
proof (induction cs arbitrary: acc)
  case Nil
  then show ?case by simp
next
  case (Cons c cs)
  from Cons.prems obtain a where a: "loop_body_with br lib inp c acc = Inr a"
    and l: "country_loop (loop_body_with br lib inp) cs a = Inr acc'"
    by (auto simp: bind_err_Inr_iff)
  from a obtain geo sid on_c where
    "GeoDataFrame (onshore_locs (buses inp) c) geo c sid = Inr on_c" "fst a = fst acc @ [on_c]"
    by (elim loop_body_with_Inr)
  then have "map (\<lambda>r. (reg_name r, (reg_x r, reg_y r))) (concat (fst a)) =
     map (\<lambda>r. (reg_name r, (reg_x r, reg_y r))) (concat (fst acc)) @ onshore_locs (buses inp) c"
    by (simp add: GeoDataFrame_keys)
  with Cons.IH [OF l] show ?case by simp
qed


lemma offshore_frame_rows:
  assumes "loop_body_with br lib inp c acc = Inr acc'"
    and "f \<in> set (snd acc')" and "f \<notin> set (snd acc)" and "r \<in> set f"
  shows "reg_country r = c \<and> offshore_shapes inp c \<noteq> None \<and> area_gt lib r
       \<and> reg_shape_id r = PyStr (reg_name r)
       \<and> (reg_name r, (reg_x r, reg_y r)) \<in> set (offshore_locs (buses inp) c)"
proof (cases "offshore_shapes inp c")
  case None
  with assms(1) have "snd acc' = snd acc" by (elim loop_body_with_Inr)
  with assms(2,3) show ?thesis by simp
next
  case (Some s)
  with assms(1) obtain cells off_c where
    gdf: "GeoDataFrame (offshore_locs (buses inp) c) (map Some cells) c
            (Array (map (\<lambda>l. PyStr (fst l)) (offshore_locs (buses inp) c))) = Inr off_c"
    and acc': "snd acc' = snd acc @ [filter (area_gt lib) off_c]"
    by (elim loop_body_with_Inr) blast
  from acc' assms(2,3) have f: "f = filter (area_gt lib) off_c" by auto
  with assms(4) have r: "r \<in> set off_c" and a: "area_gt lib r" by simp_all
  from gdf r obtain k where k: "k < length (offshore_locs (buses inp) c)"
    and n: "reg_name r = fst (offshore_locs (buses inp) c ! k)"
    and xy: "(reg_x r, reg_y r) = snd (offshore_locs (buses inp) c ! k)"
    and i: "reg_shape_id r = map (\<lambda>l. PyStr (fst l)) (offshore_locs (buses inp) c) ! k"
    by (elim GeoDataFrame_row)
  from n xy have "(reg_name r, (reg_x r, reg_y r)) = offshore_locs (buses inp) c ! k"
    by (simp add: prod_eq_iff)
  with k have "(reg_name r, (reg_x r, reg_y r)) \<in> set (offshore_locs (buses inp) c)"
    by (metis nth_mem)
  moreover from i k n have "reg_shape_id r = PyStr (reg_name r)" by simp
  moreover from gdf r have "reg_country r = c" by (rule GeoDataFrame_country)
  ultimately show ?thesis using a Some by simp
qed

lemma offshore_rows_loop:
  assumes "country_loop (loop_body_with br lib inp) cs ([], []) = Inr acc"
    and "r \<in> set (concat (snd acc))"
  shows "reg_country r \<in> set cs \<and> offshore_shapes inp (reg_country r) \<noteq> None
       \<and> area_gt lib r \<and> reg_shape_id r = PyStr (reg_name r)
       \<and> (reg_name r, (reg_x r, reg_y r)) \<in> set (offshore_locs (buses inp) (reg_country r))"
proof -
  let ?Q = "\<lambda>r. reg_country r \<in> set cs \<and> offshore_shapes inp (reg_country r) \<noteq> None
       \<and> area_gt lib r \<and> reg_shape_id r = PyStr (reg_name r)
       \<and> (reg_name r, (reg_x r, reg_y r)) \<in> set (offshore_locs (buses inp) (reg_country r))"
  have "\<forall>f \<in> set (snd acc). \<forall>r \<in> set f. ?Q r"
  proof (rule country_loop_invariant [OF assms(1)])
    show "\<forall>f \<in> set (snd ([], [])). \<forall>r \<in> set f. ?Q r" by simp
  next
    fix c a a'
    assume c: "c \<in> set cs" and inv: "\<forall>f \<in> set (snd a). \<forall>r \<in> set f. ?Q r"
      and step: "loop_body_with br lib inp c a = Inr a'"
    show "\<forall>f \<in> set (snd a'). \<forall>r \<in> set f. ?Q r"
    proof (intro ballI)
      fix f r assume f: "f \<in> set (snd a')" and r: "r \<in> set f"
      show "?Q r"
      proof (cases "f \<in> set (snd a)")
        case True
        with inv r show ?thesis by blast
      next
        case False
        from offshore_frame_rows [OF step f False r] c show ?thesis by simp
      qed
    qed
  qed
  with assms(2) show ?thesis by auto
qed

lemma onshore_frame_rows:
  assumes "loop_body_with br lib inp c acc = Inr acc'"
    and "f \<in> set (fst acc')" and "f \<notin> set (fst acc)" and "r \<in> set f"
  shows "reg_country r = c \<and> country_shapes inp c \<noteq> None
       \<and> (\<not> nuts_clustering inp \<longrightarrow> reg_shape_id r = PyInt (- 1))
       \<and> (reg_name r, (reg_x r, reg_y r)) \<in> set (onshore_locs (buses inp) c)"
proof -
  from assms(1) obtain shape geo sid on_c where
    sh: "country_shapes inp c = Some shape"
    and br: "(if nuts_clustering inp
      then br lib (onshore_locs (buses inp) c) (nuts_shapes inp)
      else bind_err (voronoi_partition_pts lib (map snd (onshore_locs (buses inp) c)) shape)
             (\<lambda>cells. Inr (map Some cells, Scalar (PyInt (- 1))))) = Inr (geo, sid)"
    and gdf: "GeoDataFrame (onshore_locs (buses inp) c) geo c sid = Inr on_c"
    and acc': "fst acc' = fst acc @ [on_c]"
    by (elim loop_body_with_Inr)
  from acc' assms(2,3) have "f = on_c" by auto
  with assms(4) have r: "r \<in> set on_c" by simp
  have "map (\<lambda>r. (reg_name r, (reg_x r, reg_y r))) on_c = onshore_locs (buses inp) c"
    using gdf by (rule GeoDataFrame_keys)
  with r have "(reg_name r, (reg_x r, reg_y r)) \<in> set (onshore_locs (buses inp) c)"
    by (metis (mono_tags, lifting) image_eqI list.set_map)
  moreover from gdf r have "reg_country r = c" by (rule GeoDataFrame_country)
  moreover have "reg_shape_id r = PyInt (- 1)" if "\<not> nuts_clustering inp"
  proof -
    from br that have "sid = Scalar (PyInt (- 1))" by (auto simp: bind_err_Inr_iff)
    with gdf r show ?thesis by (auto dest: GeoDataFrame_scalar_id)
  qed
  ultimately show ?thesis using sh by simp
qed

lemma onshore_rows_loop:
  assumes "country_loop (loop_body_with br lib inp) cs ([], []) = Inr acc"
    and "r \<in> set (concat (fst acc))"
  shows "reg_country r \<in> set cs \<and> country_shapes inp (reg_country r) \<noteq> None
       \<and> (\<not> nuts_clustering inp \<longrightarrow> reg_shape_id r = PyInt (- 1))
       \<and> (reg_name r, (reg_x r, reg_y r)) \<in> set (onshore_locs (buses inp) (reg_country r))"
proof -
  let ?Q = "\<lambda>r. reg_country r \<in> set cs \<and> country_shapes inp (reg_country r) \<noteq> None
       \<and> (\<not> nuts_clustering inp \<longrightarrow> reg_shape_id r = PyInt (- 1))
       \<and> (reg_name r, (reg_x r, reg_y r)) \<in> set (onshore_locs (buses inp) (reg_country r))"
  have "\<forall>f \<in> set (fst acc). \<forall>r \<in> set f. ?Q r"
  proof (rule country_loop_invariant [OF assms(1)])
    show "\<forall>f \<in> set (fst ([], [])). \<forall>r \<in> set f. ?Q r" by simp
  next
    fix c a a'
    assume c: "c \<in> set cs" and inv: "\<forall>f \<in> set (fst a). \<forall>r \<in> set f. ?Q r"
      and step: "loop_body_with br lib inp c a = Inr a'"
    show "\<forall>f \<in> set (fst a'). \<forall>r \<in> set f. ?Q r"
    proof (intro ballI)
      fix f r assume f: "f \<in> set (fst a')" and r: "r \<in> set f"
      show "?Q r"
      proof (cases "f \<in> set (fst a)")
        case True
        with inv r show ?thesis by blast
      next
        case False
        from onshore_frame_rows [OF step f False r] c show ?thesis by simp
      qed
    qed
  qed
  with assms(2) show ?thesis by auto
qed

section \<open>Example runs\<close>

lemma example_voronoi_run:
  "country_loop (loop_body box_lib example_inputs) (countries example_inputs) ([], []) =
     Inr ([[mk_region ''DE1 0'' 10 51 (Some (Box 6 47 15 55)) ''DE'' (PyInt (- 1))],
           [mk_region ''FR1 0'' 2 47 (Some (Box (- 5) 42 8 51)) ''FR'' (PyInt (- 1))]],
          [[mk_region ''DE1 1'' 7 54 (Some (Box 6 53 9 56)) ''DE'' (PyStr ''DE1 1'')], []])"
  by (simp add: example_inputs_def example_buses_def mk_bus_def mk_region_def loop_body_def
      loop_body_with_def onshore_locs_def offshore_locs_def buses_loc_def box_lib_def
      GeoDataFrame_def broadcast_def area_gt_def area_threshold_def)



section \<open>Rows of the administrative mode\<close>

lemma pd_concat_Inr: "pd_concat objs = Inr rows \<Longrightarrow> rows = concat objs"
  by (simp add: pd_concat_def split: if_splits)







section \<open>Output columns\<close>

text \<open>
  Claim C10: when the administrative mode is disabled, every row of the onshore output has
  \<^verbatim>\<open>shape_id\<close> equal to the integer \<open>-1\<close>; every row of the offshore output has
  \<^verbatim>\<open>shape_id\<close> equal to its own bus name (in either mode).
\<close>

theorem shape_id_without_nuts_clustering:
  assumes "country_loop (loop_body lib inp) (countries inp) ([], []) = Inr acc"
  shows "(\<not> nuts_clustering inp \<longrightarrow> pd_concat (fst acc) = Inr onshore \<longrightarrow>
            (\<forall>r \<in> set onshore. reg_shape_id r = PyInt (- 1)))
       \<and> (pd_concat (snd acc) = Inr offshore \<longrightarrow>
            (\<forall>r \<in> set offshore. reg_shape_id r = PyStr (reg_name r)))"
  using onshore_rows_loop [OF assms [unfolded loop_body_def]]
    offshore_rows_loop [OF assms [unfolded loop_body_def]]
  by (auto dest!: pd_concat_Inr)

theorem shape_id_without_nuts_clustering_witness:
  "country_loop (loop_body box_lib example_inputs) (countries example_inputs) ([], []) =
     Inr ([[mk_region ''DE1 0'' 10 51 (Some (Box 6 47 15 55)) ''DE'' (PyInt (- 1))],
           [mk_region ''FR1 0'' 2 47 (Some (Box (- 5) 42 8 51)) ''FR'' (PyInt (- 1))]],
          [[mk_region ''DE1 1'' 7 54 (Some (Box 6 53 9 56)) ''DE'' (PyStr ''DE1 1'')], []])
   \<and> \<not> nuts_clustering example_inputs
   \<and> reg_shape_id (mk_region ''FR1 0'' 2 47 (Some (Box (- 5) 42 8 51)) ''FR'' (PyInt (- 1) :: string pyval)) = PyInt (- 1)
   \<and> reg_shape_id (mk_region ''DE1 1'' 7 54 (Some (Box 6 53 9 56)) ''DE'' (PyStr ''DE1 1'' :: string pyval)) = PyStr ''DE1 1''"
proof -
  have n: "\<not> nuts_clustering example_inputs"
    by (simp add: example_inputs_def)
  from shape_id_without_nuts_clustering [OF example_voronoi_run] n example_voronoi_run
  show ?thesis by (simp add: mk_region_def)
qed

text \<open>
  Claim C4: every row of the offshore output belongs to a configured country that is
  present in the offshore shapes, so a country absent from them contributes no row, and
  its cell has an area strictly greater than \<^verbatim>\<open>1e-2\<close>.
\<close>

theorem offshore_rows_have_a_shape_and_area:
  assumes "country_loop (loop_body lib inp) (countries inp) ([], []) = Inr acc"
    and "pd_concat (snd acc) = Inr offshore"
    and "r \<in> set offshore"
  shows "reg_country r \<in> set (countries inp)
       \<and> offshore_shapes inp (reg_country r) \<noteq> None
       \<and> (\<exists>g. reg_geometry r = Some g \<and> area_threshold < area lib g)"
  using offshore_rows_loop [OF assms(1) [unfolded loop_body_def], of r] assms(2,3)
  by (auto dest!: pd_concat_Inr simp: area_gt_def split: option.splits)

theorem offshore_rows_have_a_shape_and_area_witness:
  "pd_concat [[mk_region ''DE1 1'' 7 54 (Some (Box 6 53 9 56)) ''DE'' (PyStr ''DE1 1'' :: string pyval)], []]
     = Inr [mk_region ''DE1 1'' 7 54 (Some (Box 6 53 9 56)) ''DE'' (PyStr ''DE1 1'')]
   \<and> offshore_shapes example_inputs ''DE'' = Some (Box 6 53 9 56)
   \<and> area_threshold < area box_lib (Box 6 53 9 56)
   \<and> \<not> area_threshold < area box_lib (Box (- 2) 46 (- 199 / 100) (4601 / 100))"
proof -
  let ?r = "mk_region ''DE1 1'' 7 54 (Some (Box 6 53 9 56)) ''DE'' (PyStr ''DE1 1'' :: string pyval)"
  have c: "pd_concat (snd ([[mk_region ''DE1 0'' 10 51 (Some (Box 6 47 15 55)) ''DE'' (PyInt (- 1))],
           [mk_region ''FR1 0'' 2 47 (Some (Box (- 5) 42 8 51)) ''FR'' (PyInt (- 1))]],
          [[?r], []])) = Inr [?r]"
    by (simp add: pd_concat_def)
  have m: "?r \<in> set [?r]" by simp
  from offshore_rows_have_a_shape_and_area [OF example_voronoi_run c m] c
  show ?thesis
    by (simp add: mk_region_def example_inputs_def box_lib_def area_threshold_def)
qed

section \<open>One row for every onshore bus\<close>

lemma names_distinct:
  assumes "distinct cs" and "distinct (map bus_name bs)"
  shows "distinct (concat (map (\<lambda>c. map bus_name (filter (\<lambda>b. bus_country b = c \<and> P b) bs)) cs))"
  using assms(1)
proof (induction cs)
  case Nil
  then show ?case by simp
next
  case (Cons c cs)
  have inj: "inj_on bus_name (set bs)"
    using assms(2) by (simp add: distinct_map)
  have "distinct (map bus_name (filter (\<lambda>b. bus_country b = c \<and> P b) bs))"
    using assms(2) by (rule distinct_map_filter)
  moreover have "distinct (concat (map (\<lambda>c. map bus_name (filter (\<lambda>b. bus_country b = c \<and> P b) bs)) cs))"
    using Cons by simp
  moreover have "set (map bus_name (filter (\<lambda>b. bus_country b = c \<and> P b) bs))
     \<inter> set (concat (map (\<lambda>c. map bus_name (filter (\<lambda>b. bus_country b = c \<and> P b) bs)) cs)) = {}"
  proof (rule ccontr)
    assume "\<not> ?thesis"
    then obtain b1 b2 c' where "b1 \<in> set bs" "bus_country b1 = c" "b2 \<in> set bs"
      "c' \<in> set cs" "bus_country b2 = c'" "bus_name b1 = bus_name b2"
      by auto
    with inj have "b1 = b2" by (auto dest: inj_onD)
    with \<open>bus_country b1 = c\<close> \<open>bus_country b2 = c'\<close> \<open>c' \<in> set cs\<close> Cons.prems
    show False by auto
  qed
  ultimately show ?case by simp
qed

lemma onshore_keys_distinct:
  assumes "distinct cs" and "distinct (map bus_name bs)"
  shows "distinct (concat (map (onshore_locs bs) cs))"
proof -
  have "map fst (concat (map (onshore_locs bs) cs)) =
        concat (map (\<lambda>c. map bus_name (filter (\<lambda>b. bus_country b = c \<and> bus_substation_lv b) bs)) cs)"
    by (simp add: map_concat onshore_locs_def buses_loc_def o_def)
  with names_distinct [OF assms, of bus_substation_lv]
  have "distinct (map fst (concat (map (onshore_locs bs) cs)))" by simp
  then show ?thesis by (simp add: distinct_map)
qed

lemma duplicate_run:
  "country_loop (loop_body box_lib duplicate_inputs) (countries duplicate_inputs) ([], []) =
     Inr ([[mk_region ''DE1 0'' 10 51 (Some (Box 6 47 15 55)) ''DE'' (PyInt (- 1))],
           [mk_region ''DE1 0'' 10 51 (Some (Box 6 47 15 55)) ''DE'' (PyInt (- 1))]],
          [[mk_region ''DE1 1'' 7 54 (Some (Box 6 53 9 56)) ''DE'' (PyStr ''DE1 1'')],
           [mk_region ''DE1 1'' 7 54 (Some (Box 6 53 9 56)) ''DE'' (PyStr ''DE1 1'')]])"
  by (simp add: duplicate_inputs_def example_inputs_def example_buses_def mk_bus_def
      mk_region_def loop_body_def loop_body_with_def onshore_locs_def offshore_locs_def
      buses_loc_def box_lib_def GeoDataFrame_def broadcast_def area_gt_def area_threshold_def)

text \<open>
  Claim C3 says that the onshore output has exactly one row for every bus of a processed
  country with \<^verbatim>\<open>substation_lv\<close> set. The loop runs once for every entry of the country
  list: with \<open>DE\<close> listed twice, the bus \<open>DE1 0\<close> has two rows.
\<close>

theorem repeated_country_counterexample:
  "country_loop (loop_body box_lib duplicate_inputs) (countries duplicate_inputs) ([], []) =
     Inr ([[mk_region ''DE1 0'' 10 51 (Some (Box 6 47 15 55)) ''DE'' (PyInt (- 1))],
           [mk_region ''DE1 0'' 10 51 (Some (Box 6 47 15 55)) ''DE'' (PyInt (- 1))]],
          [[mk_region ''DE1 1'' 7 54 (Some (Box 6 53 9 56)) ''DE'' (PyStr ''DE1 1'')],
           [mk_region ''DE1 1'' 7 54 (Some (Box 6 53 9 56)) ''DE'' (PyStr ''DE1 1'')]])
   \<and> mk_bus ''DE1 0'' 10 51 ''DE'' True False \<in> set (buses duplicate_inputs)
   \<and> ''DE'' \<in> set (countries duplicate_inputs)
   \<and> length (filter (\<lambda>r. reg_name r = ''DE1 0'' \<and> reg_x r = 10 \<and> reg_y r = 51)
        (concat [[mk_region ''DE1 0'' 10 51 (Some (Box 6 47 15 55)) ''DE'' (PyInt (- 1) :: string pyval)],
                 [mk_region ''DE1 0'' 10 51 (Some (Box 6 47 15 55)) ''DE'' (PyInt (- 1))]])) = 2"
proof -
  have "mk_bus ''DE1 0'' 10 51 ''DE'' True False \<in> set (buses duplicate_inputs)"
    by (simp add: duplicate_inputs_def example_inputs_def example_buses_def)
  moreover have "''DE'' \<in> set (countries duplicate_inputs)"
    by (simp add: duplicate_inputs_def example_inputs_def)
  ultimately show ?thesis
    using duplicate_run by (simp add: mk_region_def)
qed

text \<open>
  Claim C3, amended: when the run reaches the concatenation, the country list has no
  repeated entry and the bus names are unique, the onshore output has exactly one row with
  the name and the coordinates of every bus of a listed country with \<^verbatim>\<open>substation_lv\<close> set.
\<close>

theorem one_row_per_onshore_bus:
  assumes "country_loop (loop_body lib inp) (countries inp) ([], []) = Inr acc"
    and "pd_concat (fst acc) = Inr onshore"
    and "distinct (countries inp)"
    and "distinct (map bus_name (buses inp))"
    and "b \<in> set (buses inp)"
    and "bus_country b \<in> set (countries inp)"
    and "bus_substation_lv b"
  shows "length (filter (\<lambda>r. reg_name r = bus_name b \<and> reg_x r = bus_x b \<and> reg_y r = bus_y b)
           onshore) = 1"
proof -
  let ?key = "\<lambda>r. (reg_name r, (reg_x r, reg_y r))"
  let ?kb = "(bus_name b, (bus_x b, bus_y b))"
  let ?ks = "concat (map (onshore_locs (buses inp)) (countries inp))"
  have rows: "onshore = concat (fst acc)"
    using assms(2) by (rule pd_concat_Inr)
  have keys: "map ?key onshore = ?ks"
    using country_loop_onshore_keys [OF assms(1) [unfolded loop_body_def]] rows by simp
  have d: "distinct ?ks"
    using assms(3,4) by (rule onshore_keys_distinct)
  have "?kb \<in> set (onshore_locs (buses inp) (bus_country b))"
    using assms(5,7) by (auto simp: onshore_locs_def buses_loc_def)
  with assms(6) have m: "?kb \<in> set ?ks" by auto
  have "length (filter (\<lambda>r. reg_name r = bus_name b \<and> reg_x r = bus_x b \<and> reg_y r = bus_y b) onshore)
      = length (filter (\<lambda>k. k = ?kb) (map ?key onshore))"
    by (simp add: filter_map o_def)
  also have "\<dots> = card ({k. k = ?kb} \<inter> set ?ks)"
    unfolding keys using d by (rule distinct_length_filter)
  also have "{k. k = ?kb} \<inter> set ?ks = {?kb}"
    using m by auto
  finally show ?thesis by simp
qed

theorem one_row_per_onshore_bus_witness:
  "distinct (countries example_inputs)
   \<and> distinct (map bus_name (buses example_inputs))
   \<and> mk_bus ''FR1 0'' 2 47 ''FR'' True False \<in> set (buses example_inputs)
   \<and> ''FR'' \<in> set (countries example_inputs)
   \<and> length (filter (\<lambda>r. reg_name r = ''FR1 0'' \<and> reg_x r = 2 \<and> reg_y r = 47)
        [mk_region ''DE1 0'' 10 51 (Some (Box 6 47 15 55)) ''DE'' (PyInt (- 1) :: string pyval),
         mk_region ''FR1 0'' 2 47 (Some (Box (- 5) 42 8 51)) ''FR'' (PyInt (- 1))]) = 1"
proof -
  let ?b = "mk_bus ''FR1 0'' 2 47 ''FR'' True False"
  let ?rows = "[mk_region ''DE1 0'' 10 51 (Some (Box 6 47 15 55)) ''DE'' (PyInt (- 1) :: string pyval),
         mk_region ''FR1 0'' 2 47 (Some (Box (- 5) 42 8 51)) ''FR'' (PyInt (- 1))]"
  have c: "pd_concat (fst ([[mk_region ''DE1 0'' 10 51 (Some (Box 6 47 15 55)) ''DE'' (PyInt (- 1))],
           [mk_region ''FR1 0'' 2 47 (Some (Box (- 5) 42 8 51)) ''FR'' (PyInt (- 1))]],
          [[mk_region ''DE1 1'' 7 54 (Some (Box 6 53 9 56)) ''DE'' (PyStr ''DE1 1'' :: string pyval)], []]))
        = Inr ?rows"
    by (simp add: pd_concat_def)
  have d1: "distinct (countries example_inputs)"
    by (simp add: example_inputs_def)
  have d2: "distinct (map bus_name (buses example_inputs))"
    by (simp add: example_inputs_def example_buses_def mk_bus_def)
  have m: "?b \<in> set (buses example_inputs)"
    by (simp add: example_inputs_def example_buses_def)
  have k: "bus_country ?b \<in> set (countries example_inputs)"
    by (simp add: example_inputs_def mk_bus_def)
  have lv: "bus_substation_lv ?b"
    by (simp add: mk_bus_def)
  from one_row_per_onshore_bus [OF example_voronoi_run c d1 d2 m k lv] d1 d2 m k
  show ?thesis by (simp add: mk_bus_def)
qed

section \<open>A listed country that the data does not have\<close>

lemma bind_err_assoc:
  "bind_err (bind_err m f) g = bind_err m (\<lambda>v. bind_err (f v) g)"
  by (cases m) simp_all

lemma country_loop_append:
  "country_loop body (cs1 @ cs2) acc = bind_err (country_loop body cs1 acc) (country_loop body cs2)"
proof (induction cs1 arbitrary: acc)
  case Nil
  show ?case by simp
next
  case (Cons a cs1)
  show ?case by (cases "body a acc") (simp_all add: Cons.IH)
qed

lemma loop_body_no_shape:
  "country_shapes inp c = None \<Longrightarrow> loop_body_with br lib inp c acc = Inl (KeyError c)"
  by (simp add: loop_body_with_def)

lemma buses_loc_empty:
  "(\<forall>b \<in> set bs. \<not> sel b) \<Longrightarrow> buses_loc sel bs = []"
  by (simp add: buses_loc_def filter_empty_conv)

lemma missing_shape_first_country:
  "country_loop (loop_body box_lib missing_shape_inputs) [''DE''] ([], []) =
     Inr ([[mk_region ''DE1 0'' 10 51 (Some (Box 6 47 15 55)) ''DE'' (PyInt (- 1))]],
          [[mk_region ''DE1 1'' 7 54 (Some (Box 6 53 9 56)) ''DE'' (PyStr ''DE1 1'')]])"
  by (simp add: missing_shape_inputs_def example_inputs_def example_buses_def mk_bus_def
      mk_region_def loop_body_def loop_body_with_def onshore_locs_def offshore_locs_def
      buses_loc_def box_lib_def GeoDataFrame_def broadcast_def area_gt_def area_threshold_def)

lemma xx_run:
  "country_loop (loop_body box_lib xx_inputs) (countries xx_inputs) ([], []) =
     Inr ([[mk_region ''DE1 0'' 10 51 (Some (Box 6 47 15 55)) ''DE'' (PyId ''DE9'')], []],
          [[mk_region ''DE1 1'' 7 54 (Some (Box 6 53 9 56)) ''DE'' (PyStr ''DE1 1'')]])"
  by (simp add: xx_inputs_def example_inputs_nuts_def example_inputs_def example_buses_def
      mk_bus_def mk_region_def loop_body_def
      loop_body_with_def onshore_locs_def offshore_locs_def buses_loc_def box_lib_def
      GeoDataFrame_def broadcast_def area_gt_def area_threshold_def nuts_branch_unfold
      get_nuts_shape_def locate_bus_def get_id_def containing_def probe_def pyval_of_id_def)

text \<open>
  Claim C5 says that a listed country absent from the bus data or from the shape data
  raises a lookup error that aborts the run. The comparison \<^verbatim>\<open>n.buses.country == country\<close>
  raises nothing: for \<open>XX\<close>, which has a country shape and no bus, the selection is empty,
  the loop goes on and the script ends without an exception.
\<close>

theorem absent_from_bus_data_counterexample:
  "''XX'' \<in> set (countries xx_inputs)
   \<and> filter (\<lambda>b. bus_country b = ''XX'') (buses xx_inputs) = []
   \<and> country_loop (loop_body box_lib xx_inputs) (countries xx_inputs) ([], []) =
       Inr ([[mk_region ''DE1 0'' 10 51 (Some (Box 6 47 15 55)) ''DE'' (PyId ''DE9'')], []],
            [[mk_region ''DE1 1'' 7 54 (Some (Box 6 53 9 56)) ''DE'' (PyStr ''DE1 1'')]])
   \<and> fst (main box_lib create_io xx_inputs Map.empty) = None"
proof -
  have "''XX'' \<in> set (countries xx_inputs)"
    by (simp add: xx_inputs_def)
  moreover have "filter (\<lambda>b. bus_country b = ''XX'') (buses xx_inputs) = []"
    by (simp add: xx_inputs_def example_inputs_nuts_def example_inputs_def example_buses_def
        mk_bus_def)
  moreover have "fst (main box_lib create_io xx_inputs Map.empty) = None"
    by (simp add: main_def main_with_def xx_run pd_concat_def save_to_geojson_def
        infer_schema_def os_path_exists_def)
  ultimately show ?thesis using xx_run by simp
qed

text \<open>
  Claim C5, amended: a listed country absent from the country shapes raises
  \<^verbatim>\<open>KeyError\<close> at \<^verbatim>\<open>country_shapes[country]\<close>. Nothing catches it: unless an earlier country
  has already ended the run, the loop ends with this \<^verbatim>\<open>KeyError\<close>, and the script ends with
  an exception before it touches a file. A country absent from the bus data raises no lookup
  error: its two selections are empty.
\<close>

theorem missing_country_shape_aborts:
  assumes "countries inp = cs1 @ c # cs2" and "country_shapes inp c = None"
  shows "loop_body lib inp c acc = Inl (KeyError c)
       \<and> country_loop (loop_body lib inp) (countries inp) ([], []) =
           bind_err (country_loop (loop_body lib inp) cs1 ([], [])) (\<lambda>a. Inl (KeyError c))
       \<and> (\<exists>e. main lib io inp fs = (Some e, fs))
       \<and> ((\<forall>b \<in> set (buses inp). bus_country b \<noteq> c') \<longrightarrow>
            onshore_locs (buses inp) c' = [] \<and> offshore_locs (buses inp) c' = [])"
proof -
  have body: "loop_body lib inp c a = Inl (KeyError c)" for a
    using assms(2) by (simp add: loop_body_def loop_body_no_shape)
  have loop: "country_loop (loop_body lib inp) (countries inp) ([], []) =
           bind_err (country_loop (loop_body lib inp) cs1 ([], [])) (\<lambda>a. Inl (KeyError c))"
  proof -
    have "country_loop (loop_body lib inp) (c # cs2) = (\<lambda>a. Inl (KeyError c))"
      by (intro ext) (simp add: body)
    then show ?thesis
      unfolding assms(1) country_loop_append by simp
  qed
  then obtain e where "country_loop (loop_body lib inp) (countries inp) ([], []) = Inl e"
    by (cases "country_loop (loop_body lib inp) cs1 ([], [])") simp_all
  then have "main lib io inp fs = (Some e, fs)"
    by (simp add: main_def main_with_def)
  with body loop show ?thesis
    by (simp add: onshore_locs_def offshore_locs_def buses_loc_empty)
qed

theorem missing_country_shape_aborts_witness:
  "countries missing_shape_inputs = [''DE''] @ ''XX'' # []
   \<and> country_shapes missing_shape_inputs ''XX'' = None
   \<and> loop_body box_lib missing_shape_inputs ''XX''
        ([[mk_region ''DE1 0'' 10 51 (Some (Box 6 47 15 55)) ''DE'' (PyInt (- 1))]],
         [[mk_region ''DE1 1'' 7 54 (Some (Box 6 53 9 56)) ''DE'' (PyStr ''DE1 1'')]])
       = Inl (KeyError ''XX'')
   \<and> country_loop (loop_body box_lib missing_shape_inputs) (countries missing_shape_inputs) ([], [])
       = Inl (KeyError ''XX'')"
proof -
  have a: "countries missing_shape_inputs = [''DE''] @ ''XX'' # []"
    by (simp add: missing_shape_inputs_def example_inputs_def)
  have b: "country_shapes missing_shape_inputs ''XX'' = None"
    by (simp add: missing_shape_inputs_def example_inputs_def)
  note t = missing_country_shape_aborts [OF a b, of box_lib]
  from t have body: "loop_body box_lib missing_shape_inputs ''XX''
        ([[mk_region ''DE1 0'' 10 51 (Some (Box 6 47 15 55)) ''DE'' (PyInt (- 1))]],
         [[mk_region ''DE1 1'' 7 54 (Some (Box 6 53 9 56)) ''DE'' (PyStr ''DE1 1'')]])
       = Inl (KeyError ''XX'')"
    by (rule conjunct1)
  from t have "country_loop (loop_body box_lib missing_shape_inputs)
       (countries missing_shape_inputs) ([], [])
     = bind_err (country_loop (loop_body box_lib missing_shape_inputs) [''DE''] ([], []))
         (\<lambda>a. Inl (KeyError ''XX''))"
    by (rule conjunct1 [OF conjunct2])
  then have loop: "country_loop (loop_body box_lib missing_shape_inputs)
       (countries missing_shape_inputs) ([], []) = Inl (KeyError ''XX'')"
    by (simp only: missing_shape_first_country bind_err_simps)
  from a b body loop show ?thesis by (intro conjI)
qed

section \<open>The buses of a country\<close>

lemma example_first_country:
  "loop_body box_lib example_inputs ''DE'' ([], []) =
     Inr ([[mk_region ''DE1 0'' 10 51 (Some (Box 6 47 15 55)) ''DE'' (PyInt (- 1))]],
          [[mk_region ''DE1 1'' 7 54 (Some (Box 6 53 9 56)) ''DE'' (PyStr ''DE1 1'')]])"
  by (simp add: example_inputs_def example_buses_def mk_bus_def
      mk_region_def loop_body_def loop_body_with_def onshore_locs_def offshore_locs_def
      buses_loc_def box_lib_def GeoDataFrame_def broadcast_def area_gt_def area_threshold_def)

text \<open>
  Claim C7: for every country \<open>C\<close> the onshore selection is exactly the buses with country
  \<open>C\<close> and \<^verbatim>\<open>substation_lv\<close> set, the offshore selection exactly those with country \<open>C\<close>
  and \<^verbatim>\<open>substation_off\<close> set. The loop body uses them: the onshore frame it appends has
  the names and coordinates of the onshore selection, in table order, and the offshore
  cells are computed from the coordinates of the offshore selection, one row for each of
  its buses before the area filter.
\<close>

theorem bus_selection:
  "set (onshore_locs bs C) =
     (\<lambda>b. (bus_name b, (bus_x b, bus_y b))) `
       {b \<in> set bs. bus_country b = C \<and> bus_substation_lv b}
   \<and> set (offshore_locs bs C) =
     (\<lambda>b. (bus_name b, (bus_x b, bus_y b))) `
       {b \<in> set bs. bus_country b = C \<and> bus_substation_off b}
   \<and> (loop_body lib inp C acc = Inr acc' \<longrightarrow>
        map (\<lambda>r. (reg_name r, (reg_x r, reg_y r))) (last (fst acc')) =
          map (\<lambda>b. (bus_name b, (bus_x b, bus_y b)))
            (filter (\<lambda>b. bus_country b = C \<and> bus_substation_lv b) (buses inp))
        \<and> (\<forall>s. offshore_shapes inp C = Some s \<longrightarrow>
             (\<exists>cells off_c.
                voronoi_partition_pts lib
                  (map (\<lambda>b. (bus_x b, bus_y b))
                    (filter (\<lambda>b. bus_country b = C \<and> bus_substation_off b) (buses inp))) s
                  = Inr cells
                \<and> map (\<lambda>r. (reg_name r, (reg_x r, reg_y r))) off_c =
                    map (\<lambda>b. (bus_name b, (bus_x b, bus_y b)))
                      (filter (\<lambda>b. bus_country b = C \<and> bus_substation_off b) (buses inp))
                \<and> last (snd acc') = filter (area_gt lib) off_c)))"
proof -
  have on: "set (onshore_locs bs C) =
     (\<lambda>b. (bus_name b, (bus_x b, bus_y b))) `
       {b \<in> set bs. bus_country b = C \<and> bus_substation_lv b}"
    by (simp add: onshore_locs_def buses_loc_def)
  have off: "set (offshore_locs bs C) =
     (\<lambda>b. (bus_name b, (bus_x b, bus_y b))) `
       {b \<in> set bs. bus_country b = C \<and> bus_substation_off b}"
    by (simp add: offshore_locs_def buses_loc_def)
  have run: "map (\<lambda>r. (reg_name r, (reg_x r, reg_y r))) (last (fst acc')) =
          map (\<lambda>b. (bus_name b, (bus_x b, bus_y b)))
            (filter (\<lambda>b. bus_country b = C \<and> bus_substation_lv b) (buses inp))
        \<and> (\<forall>s. offshore_shapes inp C = Some s \<longrightarrow>
             (\<exists>cells off_c.
                voronoi_partition_pts lib
                  (map (\<lambda>b. (bus_x b, bus_y b))
                    (filter (\<lambda>b. bus_country b = C \<and> bus_substation_off b) (buses inp))) s
                  = Inr cells
                \<and> map (\<lambda>r. (reg_name r, (reg_x r, reg_y r))) off_c =
                    map (\<lambda>b. (bus_name b, (bus_x b, bus_y b)))
                      (filter (\<lambda>b. bus_country b = C \<and> bus_substation_off b) (buses inp))
                \<and> last (snd acc') = filter (area_gt lib) off_c))"
    if step: "loop_body lib inp C acc = Inr acc'"
  proof -
    from step obtain geo sid on_c where
      gdf: "GeoDataFrame (onshore_locs (buses inp) C) geo C sid = Inr on_c"
      and acc': "fst acc' = fst acc @ [on_c]"
      and offs: "\<And>s. offshore_shapes inp C = Some s \<Longrightarrow>
       \<exists>cells off_c.
         voronoi_partition_pts lib (map snd (offshore_locs (buses inp) C)) s = Inr cells
         \<and> GeoDataFrame (offshore_locs (buses inp) C) (map Some cells) C
              (Array (map (\<lambda>l. PyStr (fst l)) (offshore_locs (buses inp) C))) = Inr off_c
         \<and> snd acc' = snd acc @ [filter (area_gt lib) off_c]"
      unfolding loop_body_def by (elim loop_body_with_Inr) blast
    have "map (\<lambda>r. (reg_name r, (reg_x r, reg_y r))) (last (fst acc')) =
          onshore_locs (buses inp) C"
      using GeoDataFrame_keys [OF gdf] acc' by simp
    then have first: "map (\<lambda>r. (reg_name r, (reg_x r, reg_y r))) (last (fst acc')) =
          map (\<lambda>b. (bus_name b, (bus_x b, bus_y b)))
            (filter (\<lambda>b. bus_country b = C \<and> bus_substation_lv b) (buses inp))"
      by (simp add: onshore_locs_def buses_loc_def)
    have coords: "map snd (offshore_locs (buses inp) C) =
        map (\<lambda>b. (bus_x b, bus_y b))
          (filter (\<lambda>b. bus_country b = C \<and> bus_substation_off b) (buses inp))"
      by (simp add: offshore_locs_def buses_loc_def o_def)
    have keys: "offshore_locs (buses inp) C =
        map (\<lambda>b. (bus_name b, (bus_x b, bus_y b)))
          (filter (\<lambda>b. bus_country b = C \<and> bus_substation_off b) (buses inp))"
      by (simp add: offshore_locs_def buses_loc_def)
    have second: "\<exists>cells off_c.
                voronoi_partition_pts lib
                  (map (\<lambda>b. (bus_x b, bus_y b))
                    (filter (\<lambda>b. bus_country b = C \<and> bus_substation_off b) (buses inp))) s
                  = Inr cells
                \<and> map (\<lambda>r. (reg_name r, (reg_x r, reg_y r))) off_c =
                    map (\<lambda>b. (bus_name b, (bus_x b, bus_y b)))
                      (filter (\<lambda>b. bus_country b = C \<and> bus_substation_off b) (buses inp))
                \<and> last (snd acc') = filter (area_gt lib) off_c"
      if s: "offshore_shapes inp C = Some s" for s
    proof -
      from offs [OF s] obtain cells off_c where
        v: "voronoi_partition_pts lib (map snd (offshore_locs (buses inp) C)) s = Inr cells"
        and g: "GeoDataFrame (offshore_locs (buses inp) C) (map Some cells) C
              (Array (map (\<lambda>l. PyStr (fst l)) (offshore_locs (buses inp) C))) = Inr off_c"
        and a: "snd acc' = snd acc @ [filter (area_gt lib) off_c]"
        by blast
      from v have "voronoi_partition_pts lib
                  (map (\<lambda>b. (bus_x b, bus_y b))
                    (filter (\<lambda>b. bus_country b = C \<and> bus_substation_off b) (buses inp))) s
                  = Inr cells"
        by (simp only: coords)
      moreover from GeoDataFrame_keys [OF g]
      have "map (\<lambda>r. (reg_name r, (reg_x r, reg_y r))) off_c =
                    map (\<lambda>b. (bus_name b, (bus_x b, bus_y b)))
                      (filter (\<lambda>b. bus_country b = C \<and> bus_substation_off b) (buses inp))"
        by (simp only: keys)
      moreover from a have "last (snd acc') = filter (area_gt lib) off_c" by simp
      ultimately show ?thesis by blast
    qed
    from first second show ?thesis by blast
  qed
  from on off run show ?thesis by blast
qed

theorem bus_selection_witness:
  "onshore_locs (buses example_inputs) ''DE'' = [(''DE1 0'', (10, 51))]
   \<and> offshore_locs (buses example_inputs) ''DE'' = [(''DE1 1'', (7, 54))]
   \<and> loop_body box_lib example_inputs ''DE'' ([], []) =
       Inr ([[mk_region ''DE1 0'' 10 51 (Some (Box 6 47 15 55)) ''DE'' (PyInt (- 1))]],
            [[mk_region ''DE1 1'' 7 54 (Some (Box 6 53 9 56)) ''DE'' (PyStr ''DE1 1'')]])
   \<and> map (\<lambda>r. (reg_name r, (reg_x r, reg_y r)))
       [mk_region ''DE1 0'' 10 51 (Some (Box 6 47 15 55)) ''DE'' (PyInt (- 1) :: string pyval)]
       = [(''DE1 0'', (10, 51))]"
proof -
  have on: "onshore_locs (buses example_inputs) ''DE'' = [(''DE1 0'', (10, 51))]"
    by (simp add: example_inputs_def example_buses_def mk_bus_def onshore_locs_def buses_loc_def)
  have off: "offshore_locs (buses example_inputs) ''DE'' = [(''DE1 1'', (7, 54))]"
    by (simp add: example_inputs_def example_buses_def mk_bus_def offshore_locs_def buses_loc_def)
  from bus_selection [of "buses example_inputs" "''DE''" box_lib example_inputs "([], [])"]
    example_first_country on off
  show ?thesis by (simp add: mk_region_def)
qed

section \<open>The two calls of the administrative branch\<close>

lemma nuts_branch_single_call_st_same:
  "nuts_branch_single_call_st lib s = nuts_branch_st lib s"
  by (cases "get_nuts_shape (contains lib) (st_onshore_locs s) (st_nuts_shapes s)")
     (simp_all add: nuts_branch_single_call_st_eq nuts_branch_st_eq)

lemma nuts_branch_single_call_eq:
  "nuts_branch_single_call lib locs shapes = nuts_branch lib locs shapes"
  by (simp add: nuts_branch_single_call_def nuts_branch_def nuts_branch_single_call_st_same)

lemma loop_body_single_call_eq:
  "loop_body_single_call lib inp = loop_body lib inp"
  by (intro ext)
     (simp add: loop_body_single_call_def loop_body_def loop_body_with_def
        nuts_branch_single_call_eq split: option.splits)

text \<open>
  Claim C6: the two successive calls of \<^verbatim>\<open>get_nuts_shape\<close> are redundant. A call returns
  the store of the two objects as it found it, with the value of the function of their
  contents; so the second call computes what the first did, the two calls and the single
  call leave the same value and the same store, and the loop body and the whole script
  (its exception and the files it leaves) are the same with the single call, on every input.
\<close>

theorem single_call_gives_the_same_output:
  "get_nuts_shape_st (contains lib) s =
     (get_nuts_shape (contains lib) (st_onshore_locs s) (st_nuts_shapes s), s)
   \<and> nuts_branch_single_call_st lib s = nuts_branch_st lib s
   \<and> nuts_branch_single_call lib locs shapes = nuts_branch lib locs shapes
   \<and> loop_body_single_call lib inp c acc = loop_body lib inp c acc
   \<and> main_single_call lib io inp fs = main lib io inp fs"
  by (simp add: get_nuts_shape_st_eq nuts_branch_single_call_st_same
      nuts_branch_single_call_eq loop_body_single_call_eq main_single_call_def main_def)

theorem single_call_gives_the_same_output_witness:
  "nuts_branch_st box_lib example_store =
     (Inr ([Some (Box 6 47 15 55), None], Array [PyId ''DE9'', PyNone]), example_store)
   \<and> nuts_branch_single_call_st box_lib example_store =
     (Inr ([Some (Box 6 47 15 55), None], Array [PyId ''DE9'', PyNone]), example_store)"
proof -
  have two: "nuts_branch_st box_lib example_store =
     (Inr ([Some (Box 6 47 15 55), None], Array [PyId ''DE9'', PyNone]), example_store)"
    by (simp add: nuts_branch_st_def get_nuts_shape_st_def then_st_def return_st_def
        xy_rows_st_def locate_bus_st_def get_id_st_def containing_st_def item_st_def
        containing_def probe_def box_lib_def example_store_def pyval_of_id_def)
  have "nuts_branch_single_call_st box_lib example_store = nuts_branch_st box_lib example_store"
    by (rule conjunct1 [OF conjunct2 [OF single_call_gives_the_same_output]])
  with two show ?thesis by simp
qed

section \<open>Overwriting an output file\<close>

lemma sliver_run:
  "country_loop (loop_body box_lib sliver_inputs) (countries sliver_inputs) ([], []) =
     Inr ([[mk_region ''FR1 0'' 2 47 (Some (Box (- 5) 42 8 51)) ''FR'' (PyInt (- 1))]], [[]])"
  by (simp add: sliver_inputs_def example_inputs_def example_buses_def mk_bus_def
      mk_region_def loop_body_def loop_body_with_def onshore_locs_def offshore_locs_def
      buses_loc_def box_lib_def GeoDataFrame_def broadcast_def area_gt_def area_threshold_def)

text \<open>
  Claim C8 says that a file that exists at the output path is deleted before the new file
  is written, and so replaced. The schema is inferred between the deletion and the write,
  and an empty collection has no schema: the old file is deleted, \<^verbatim>\<open>ValueError\<close> is raised
  and nothing is written. The script gets there when every offshore cell is a sliver: with
  \<open>FR\<close> alone the offshore collection is empty, and the run ends with \<^verbatim>\<open>ValueError\<close> and
  without the offshore file that was there.
\<close>

theorem empty_collection_counterexample:
  "os_path_exists [''off.geojson'' \<mapsto> [mk_region ''old'' 0 0 None ''FR'' PyNone]] ''off.geojson''
   \<and> save_to_geojson create_io ([] :: (box, string) region list) ''off.geojson''
        [''off.geojson'' \<mapsto> [mk_region ''old'' 0 0 None ''FR'' PyNone]]
       = (Some ValueError, Map.empty)
   \<and> country_loop (loop_body box_lib sliver_inputs) (countries sliver_inputs) ([], []) =
       Inr ([[mk_region ''FR1 0'' 2 47 (Some (Box (- 5) 42 8 51)) ''FR'' (PyInt (- 1))]], [[]])
   \<and> fst (main box_lib create_io sliver_inputs
        [''off.geojson'' \<mapsto> [mk_region ''old'' 0 0 None ''FR'' PyNone]]) = Some ValueError
   \<and> snd (main box_lib create_io sliver_inputs
        [''off.geojson'' \<mapsto> [mk_region ''old'' 0 0 None ''FR'' PyNone]]) ''off.geojson'' = None"
proof -
  have "regions_onshore sliver_inputs = ''on.geojson''"
    and "regions_offshore sliver_inputs = ''off.geojson''"
    by (simp_all add: sliver_inputs_def example_inputs_def)
  then have "main box_lib create_io sliver_inputs
        [''off.geojson'' \<mapsto> [mk_region ''old'' 0 0 None ''FR'' PyNone]] =
      (Some ValueError,
       [''on.geojson'' \<mapsto> [mk_region ''FR1 0'' 2 47 (Some (Box (- 5) 42 8 51)) ''FR'' (PyInt (- 1))]])"
    by (simp add: main_def main_with_def sliver_run pd_concat_def save_to_geojson_def
        infer_schema_def os_path_exists_def os_unlink_def create_io_def create_file_def
        fun_upd_twist)
  then show ?thesis
    using sliver_run
    by (simp add: save_to_geojson_def infer_schema_def os_path_exists_def os_unlink_def)
qed

text \<open>
  Claim C8, amended: when a file exists at the output path, \<^verbatim>\<open>save_to_geojson\<close> deletes it
  first, and the deletion touches no other path. For a collection that is not empty the
  writer then runs on a file system with no file at the path; a writer that creates the
  file there leaves exactly the new collection, whatever it would do with a file that
  exists, so the old file is replaced, not appended to or merged. For an empty collection
  the old file is deleted, \<^verbatim>\<open>ValueError\<close> is raised and nothing is written.
\<close>

theorem save_to_geojson_deletes_then_writes:
  assumes "os_path_exists fs fn"
  shows "\<not> os_path_exists (os_unlink fn fs) fn
       \<and> (\<forall>p. p \<noteq> fn \<longrightarrow> os_unlink fn fs p = fs p)
       \<and> (s \<noteq> [] \<longrightarrow>
            save_to_geojson io s fn fs =
              (None, to_file io s fn ((inferred io s)\<lparr>schema_geometry := ''Unknown''\<rparr>)
                       (os_unlink fn fs)))
       \<and> (s \<noteq> [] \<longrightarrow> (\<forall>sch fs'. fs' fn = None \<longrightarrow> to_file io s fn sch fs' = fs'(fn \<mapsto> s)) \<longrightarrow>
            save_to_geojson io s fn fs = (None, fs(fn \<mapsto> s)))
       \<and> (s = [] \<longrightarrow> save_to_geojson io s fn fs = (Some ValueError, os_unlink fn fs))"
  using assms
  by (auto simp: save_to_geojson_def infer_schema_def os_path_exists_def os_unlink_def)

theorem save_to_geojson_deletes_then_writes_witness:
  "os_path_exists [''on.geojson'' \<mapsto> [1 :: nat]] ''on.geojson''
   \<and> save_to_geojson append_io [2 :: nat] ''on.geojson'' [''on.geojson'' \<mapsto> [1]]
       = (None, [''on.geojson'' \<mapsto> [2]])
   \<and> to_file append_io [2 :: nat] ''on.geojson'' (polygon_schema [2 :: nat])
        [''on.geojson'' \<mapsto> [1]] ''on.geojson'' = Some [1, 2]
   \<and> save_to_geojson append_io ([] :: nat list) ''on.geojson'' [''on.geojson'' \<mapsto> [1]]
       = (Some ValueError, Map.empty)"
proof -
  let ?fs = "[''on.geojson'' \<mapsto> [1 :: nat]]"
  have e: "os_path_exists ?fs ''on.geojson''"
    by (simp add: os_path_exists_def)
  note t = save_to_geojson_deletes_then_writes [OF e, of _ append_io]
  have w: "\<forall>sch fs'. fs' ''on.geojson'' = None \<longrightarrow>
      to_file append_io [2 :: nat] ''on.geojson'' sch fs' = fs'(''on.geojson'' \<mapsto> [2])"
    by (simp add: append_io_def append_file_def)
  have "[2 :: nat] \<noteq> []" by simp
  with t [of "[2]"] w have "save_to_geojson append_io [2 :: nat] ''on.geojson'' ?fs
       = (None, ?fs(''on.geojson'' \<mapsto> [2]))"
    by blast
  then have a: "save_to_geojson append_io [2 :: nat] ''on.geojson'' ?fs
       = (None, [''on.geojson'' \<mapsto> [2]])"
    by simp
  from t [of "[]"] have b: "save_to_geojson append_io ([] :: nat list) ''on.geojson'' ?fs
       = (Some ValueError, Map.empty)"
    by (simp add: os_unlink_def)
  have c: "to_file append_io [2 :: nat] ''on.geojson'' (polygon_schema [2 :: nat]) ?fs
      ''on.geojson'' = Some [1, 2]"
    by (simp add: append_io_def append_file_def)
  from e a b c show ?thesis by (intro conjI)
qed

end
